theory Spec2Isabelle
  imports Main "HOL-Library.AList"
begin

text \<open>
  A bot polls a review system for open pull requests and relays their review status to
  a chat: a root message per pull request, replies in the thread of that message, a
  store that remembers the thread of each pull request, and a queue that delivers the
  messages one at a time. The theory embeds the renderer, the thread store, the delivery
  queue and the poll cycle of the TypeScript sources as functions, and proves the
  properties that the specification claims of them.
\<close>

section \<open>Strings\<close>

text \<open>
  A JavaScript string is modelled as a \<^typ>\<open>string\<close>, the list of the bytes of its UTF-8
  encoding. Concatenation, emptiness (JavaScript's falsy string) and equality are the
  same on both sides. The literals of the message templates that are not ASCII are given
  by their bytes.
\<close>

definition newline :: string where
  "newline = [CHR 0x0A]"

text \<open>\<^verbatim>\<open>Array.prototype.join\<close> on an array of strings.\<close>

fun join :: "string \<Rightarrow> string list \<Rightarrow> string" where
  "join sep [] = []"
| "join sep [x] = x"
| "join sep (x # y # ys) = x @ sep @ join sep (y # ys)"

definition glyph_approved :: string where
  \<comment> \<open>UTF-8 bytes of the check-mark glyph U+2705\<close>
  "glyph_approved = [CHR 0xE2, CHR 0x9C, CHR 0x85]"

definition glyph_changes :: string where
  \<comment> \<open>UTF-8 bytes of the red-circle glyph U+1F534\<close>
  "glyph_changes = [CHR 0xF0, CHR 0x9F, CHR 0x94, CHR 0xB4]"

definition glyph_pending :: string where
  \<comment> \<open>UTF-8 bytes of the hourglass glyph U+23F3\<close>
  "glyph_pending = [CHR 0xE2, CHR 0x8F, CHR 0xB3]"

definition txt_new_pr :: string where
  \<comment> \<open>header of the root message: green circle U+1F7E2, then the Russian for "New Pull Request" in asterisks\<close>
  "txt_new_pr = [CHR 0xF0, CHR 0x9F, CHR 0x9F, CHR 0xA2] @ '' *'' @ [CHR 0xD0, CHR 0x9D, CHR 0xD0, CHR 0xBE, CHR 0xD0, CHR 0xB2, CHR 0xD1, CHR 0x8B, CHR 0xD0, CHR 0xB9] @ '' Pull Request*''"

definition txt_title :: string where
  \<comment> \<open>label "Title"\<close>
  "txt_title = ''*'' @ [CHR 0xD0, CHR 0x9D, CHR 0xD0, CHR 0xB0, CHR 0xD0, CHR 0xB7, CHR 0xD0, CHR 0xB2, CHR 0xD0, CHR 0xB0, CHR 0xD0, CHR 0xBD, CHR 0xD0, CHR 0xB8, CHR 0xD0, CHR 0xB5] @ '':* ''"

definition txt_author :: string where
  \<comment> \<open>label "Author"\<close>
  "txt_author = ''*'' @ [CHR 0xD0, CHR 0x90, CHR 0xD0, CHR 0xB2, CHR 0xD1, CHR 0x82, CHR 0xD0, CHR 0xBE, CHR 0xD1, CHR 0x80] @ '':* ''"

definition txt_status :: string where
  \<comment> \<open>label "Status"\<close>
  "txt_status = ''*'' @ [CHR 0xD0, CHR 0xA1, CHR 0xD1, CHR 0x82, CHR 0xD0, CHR 0xB0, CHR 0xD1, CHR 0x82, CHR 0xD1, CHR 0x83, CHR 0xD1, CHR 0x81] @ '':* ''"

definition txt_open :: string where
  \<comment> \<open>the Russian word shown for state OPEN\<close>
  "txt_open = [CHR 0xD0, CHR 0x9E, CHR 0xD1, CHR 0x82, CHR 0xD0, CHR 0xBA, CHR 0xD1, CHR 0x80, CHR 0xD1, CHR 0x8B, CHR 0xD1, CHR 0x82]"

definition txt_repository :: string where
  \<comment> \<open>label "Repository"\<close>
  "txt_repository = ''*'' @ [CHR 0xD0, CHR 0xA0, CHR 0xD0, CHR 0xB5, CHR 0xD0, CHR 0xBF, CHR 0xD0, CHR 0xBE, CHR 0xD0, CHR 0xB7, CHR 0xD0, CHR 0xB8, CHR 0xD1, CHR 0x82, CHR 0xD0, CHR 0xBE, CHR 0xD1, CHR 0x80, CHR 0xD0, CHR 0xB8, CHR 0xD0, CHR 0xB9] @ '':* ''"

definition txt_branches :: string where
  \<comment> \<open>label "Branches"\<close>
  "txt_branches = ''*'' @ [CHR 0xD0, CHR 0x92, CHR 0xD0, CHR 0xB5, CHR 0xD1, CHR 0x82, CHR 0xD0, CHR 0xBA, CHR 0xD0, CHR 0xB8] @ '':* ''"

definition txt_arrow :: string where
  \<comment> \<open>arrow U+2192 between the branch names\<close>
  "txt_arrow = '' '' @ [CHR 0xE2, CHR 0x86, CHR 0x92] @ '' ''"

definition txt_reviewers :: string where
  \<comment> \<open>label "Reviewers"\<close>
  "txt_reviewers = ''*'' @ [CHR 0xD0, CHR 0xA0, CHR 0xD0, CHR 0xB5, CHR 0xD0, CHR 0xB2, CHR 0xD1, CHR 0x8C, CHR 0xD1, CHR 0x8E, CHR 0xD0, CHR 0xB5, CHR 0xD1, CHR 0x80, CHR 0xD1, CHR 0x8B] @ '':*''"

definition txt_no_reviewers :: string where
  \<comment> \<open>shown when the reviewer lines are empty\<close>
  "txt_no_reviewers = [CHR 0xD0, CHR 0x9D, CHR 0xD0, CHR 0xB5, CHR 0xD1, CHR 0x82] @ '' '' @ [CHR 0xD0, CHR 0xBD, CHR 0xD0, CHR 0xB0, CHR 0xD0, CHR 0xB7, CHR 0xD0, CHR 0xBD, CHR 0xD0, CHR 0xB0, CHR 0xD1, CHR 0x87, CHR 0xD0, CHR 0xB5, CHR 0xD0, CHR 0xBD, CHR 0xD0, CHR 0xBD, CHR 0xD1, CHR 0x8B, CHR 0xD1, CHR 0x85] @ '' '' @ [CHR 0xD1, CHR 0x80, CHR 0xD0, CHR 0xB5, CHR 0xD0, CHR 0xB2, CHR 0xD1, CHR 0x8C, CHR 0xD1, CHR 0x8E, CHR 0xD0, CHR 0xB5, CHR 0xD1, CHR 0x80, CHR 0xD0, CHR 0xBE, CHR 0xD0, CHR 0xB2]"

definition txt_description :: string where
  \<comment> \<open>label "Description"\<close>
  "txt_description = ''*'' @ [CHR 0xD0, CHR 0x9E, CHR 0xD0, CHR 0xBF, CHR 0xD0, CHR 0xB8, CHR 0xD1, CHR 0x81, CHR 0xD0, CHR 0xB0, CHR 0xD0, CHR 0xBD, CHR 0xD0, CHR 0xB8, CHR 0xD0, CHR 0xB5] @ '':*''"

definition txt_link :: string where
  \<comment> \<open>link glyph U+1F517 and a space\<close>
  "txt_link = [CHR 0xF0, CHR 0x9F, CHR 0x94, CHR 0x97] @ '' ''"

definition txt_all_approved :: string where
  \<comment> \<open>header of the all-approved reply: party glyph U+1F389\<close>
  "txt_all_approved = [CHR 0xF0, CHR 0x9F, CHR 0x8E, CHR 0x89] @ '' *'' @ [CHR 0xD0, CHR 0x92, CHR 0xD1, CHR 0x81, CHR 0xD0, CHR 0xB5] @ '' '' @ [CHR 0xD1, CHR 0x80, CHR 0xD0, CHR 0xB5, CHR 0xD0, CHR 0xB2, CHR 0xD1, CHR 0x8C, CHR 0xD1, CHR 0x8E, CHR 0xD0, CHR 0xB5, CHR 0xD1, CHR 0x80, CHR 0xD1, CHR 0x8B] @ '' '' @ [CHR 0xD0, CHR 0xBE, CHR 0xD0, CHR 0xB4, CHR 0xD0, CHR 0xBE, CHR 0xD0, CHR 0xB1, CHR 0xD1, CHR 0x80, CHR 0xD0, CHR 0xB8, CHR 0xD0, CHR 0xBB, CHR 0xD0, CHR 0xB8] @ '' PR!*''"

definition txt_ready :: string where
  \<comment> \<open>text after the author mention\<close>
  "txt_ready = '', '' @ [CHR 0xD0, CHR 0xB2, CHR 0xD0, CHR 0xB0, CHR 0xD1, CHR 0x88] @ '' PR '' @ [CHR 0xD0, CHR 0xB3, CHR 0xD0, CHR 0xBE, CHR 0xD1, CHR 0x82, CHR 0xD0, CHR 0xBE, CHR 0xD0, CHR 0xB2] @ '' '' @ [CHR 0xD0, CHR 0xBA] @ '' '' @ [CHR 0xD0, CHR 0xBC, CHR 0xD0, CHR 0xB5, CHR 0xD1, CHR 0x80, CHR 0xD0, CHR 0xB4, CHR 0xD0, CHR 0xB6, CHR 0xD1, CHR 0x83] @ '':''"

definition txt_approved_list :: string where
  \<comment> \<open>label "Approved"\<close>
  "txt_approved_list = ''*'' @ [CHR 0xD0, CHR 0x9E, CHR 0xD0, CHR 0xB4, CHR 0xD0, CHR 0xBE, CHR 0xD0, CHR 0xB1, CHR 0xD1, CHR 0x80, CHR 0xD0, CHR 0xB5, CHR 0xD0, CHR 0xBD, CHR 0xD0, CHR 0xBE] @ '':*''"

definition txt_reminder :: string where
  \<comment> \<open>header of the reminder reply: arrows glyph U+1F504\<close>
  "txt_reminder = [CHR 0xF0, CHR 0x9F, CHR 0x94, CHR 0x84] @ '' '' @ [CHR 0xD0, CHR 0x9D, CHR 0xD0, CHR 0xB0, CHR 0xD0, CHR 0xBF, CHR 0xD0, CHR 0xBE, CHR 0xD0, CHR 0xBC, CHR 0xD0, CHR 0xB8, CHR 0xD0, CHR 0xBD, CHR 0xD0, CHR 0xB0, CHR 0xD0, CHR 0xBD, CHR 0xD0, CHR 0xB8, CHR 0xD0, CHR 0xB5] @ '' '' @ [CHR 0xD0, CHR 0xBE] @ '' '' @ [CHR 0xD1, CHR 0x80, CHR 0xD0, CHR 0xB5, CHR 0xD0, CHR 0xB2, CHR 0xD1, CHR 0x8C, CHR 0xD1, CHR 0x8E]"

definition txt_waiting :: string where
  \<comment> \<open>label "Review awaited from"\<close>
  "txt_waiting = [CHR 0xD0, CHR 0x9E, CHR 0xD0, CHR 0xB6, CHR 0xD0, CHR 0xB8, CHR 0xD0, CHR 0xB4, CHR 0xD0, CHR 0xB0, CHR 0xD0, CHR 0xB5, CHR 0xD1, CHR 0x82, CHR 0xD1, CHR 0x81, CHR 0xD1, CHR 0x8F] @ '' '' @ [CHR 0xD1, CHR 0x80, CHR 0xD0, CHR 0xB5, CHR 0xD0, CHR 0xB2, CHR 0xD1, CHR 0x8C, CHR 0xD1, CHR 0x8E] @ '' '' @ [CHR 0xD0, CHR 0xBE, CHR 0xD1, CHR 0x82] @ '':''"

definition txt_bullet :: string where
  \<comment> \<open>bullet U+2022 and a space\<close>
  "txt_bullet = [CHR 0xE2, CHR 0x80, CHR 0xA2] @ '' ''"

section \<open>Pull-request snapshots (\<^verbatim>\<open>pull-request.interface.ts\<close>)\<close>

record BitbucketUser =
  display_name :: string
  account_id :: string

datatype pr_state = OPEN | MERGED | DECLINED | SUPERSEDED

datatype participant_role = PARTICIPANT | REVIEWER

datatype review_state = Approved | Changes_requested | Pending

text \<open>
  The optional field \<^verbatim>\<open>state\<close> of a participant is an option; the nested objects
  \<^verbatim>\<open>source\<close>, \<^verbatim>\<open>destination\<close> and \<^verbatim>\<open>links\<close> are flattened into fields named by
  their path. The field \<^verbatim>\<open>id\<close> is \<open>pr_id\<close> and a participant's \<^verbatim>\<open>state\<close> is
  \<open>participant_state\<close>.
\<close>

record Participant =
  user :: BitbucketUser
  role :: participant_role
  approved :: bool
  participant_state :: "review_state option"

record PullRequest =
  pr_id :: int
  title :: string
  description :: string
  created_on :: string
  updated_on :: string
  state :: pr_state
  author :: BitbucketUser
  reviewers :: "BitbucketUser list"
  participants :: "Participant list"
  source_branch_name :: string
  source_repository_full_name :: string
  destination_branch_name :: string
  links_html_href :: string

text \<open>The string a state has in the JSON of the review system.\<close>

fun state_name :: "pr_state \<Rightarrow> string" where
  "state_name OPEN = ''OPEN''"
| "state_name MERGED = ''MERGED''"
| "state_name DECLINED = ''DECLINED''"
| "state_name SUPERSEDED = ''SUPERSEDED''"

section \<open>The message renderer (\<^verbatim>\<open>pachka.service.ts\<close>)\<close>

text \<open>
  \<^verbatim>\<open>pr.participants.find((p) => p.user.account_id === reviewer.account_id)\<close>:
  the first participation record of the reviewer's account, \<open>None\<close> for
  \<^verbatim>\<open>undefined\<close>.
\<close>

definition participantInfo :: "PullRequest \<Rightarrow> BitbucketUser \<Rightarrow> Participant option" where
  "participantInfo pr reviewer =
     find (\<lambda>p. account_id (user p) = account_id reviewer) (participants pr)"

text \<open>
  The predicate of \<^verbatim>\<open>hasPendingReviewers\<close> and of the filter in
  \<^verbatim>\<open>formatPullRequestUpdateMessage\<close>:
  \<^verbatim>\<open>!participant?.approved && participant?.state !== 'changes_requested'\<close>.
  \<^verbatim>\<open>hasPendingReviewers\<close> is written out twice, in \<^verbatim>\<open>pachka.service.ts\<close> and in
  \<^verbatim>\<open>bitbucket.service.ts\<close>, with the same body.
\<close>

definition pendingReviewer :: "PullRequest \<Rightarrow> BitbucketUser \<Rightarrow> bool" where
  "pendingReviewer pr reviewer =
     (case participantInfo pr reviewer of
        None \<Rightarrow> True
      | Some participant \<Rightarrow>
          \<not> approved participant \<and> participant_state participant \<noteq> Some Changes_requested)"

definition hasPendingReviewers :: "PullRequest \<Rightarrow> bool" where
  "hasPendingReviewers pr = list_ex (pendingReviewer pr) (reviewers pr)"

text \<open>
  The configured mapping from display names to chat mentions: the own properties of the
  object that \<^verbatim>\<open>JSON.parse\<close> returns, with the strings they hold.
\<close>

type_synonym ReviewerMappings = "string \<rightharpoonup> string"

text \<open>
  The parsed object inherits from \<^verbatim>\<open>Object.prototype\<close>, and a property read finds the
  inherited members too. \<open>inherited name\<close> is the text a template literal gives for the
  member of that name, as Node prints it: the source text of a built-in function, and
  \<^verbatim>\<open>[object Object]\<close> for the prototype object that \<^verbatim>\<open>__proto__\<close> returns.
\<close>

definition objectPrototypeNames :: "string list" where
  "objectPrototypeNames =
     [''constructor'', ''__proto__'', ''__defineGetter__'', ''__defineSetter__'',
      ''hasOwnProperty'', ''__lookupGetter__'', ''__lookupSetter__'', ''isPrototypeOf'',
      ''propertyIsEnumerable'', ''toString'', ''valueOf'', ''toLocaleString'']"

definition inherited :: "string \<Rightarrow> string option" where
  "inherited name =
     (if name = ''constructor'' then Some ''function Object() { [native code] }''
      else if name = ''__proto__'' then Some ''[object Object]''
      else if name \<in> set objectPrototypeNames
      then Some (''function '' @ name @ ''() { [native code] }'')
      else None)"

text \<open>
  \<^verbatim>\<open>this.reviewerMappings[displayName]\<close> where it is truthy, as the text that the
  template literal prints for it: an own property shadows an inherited member, and an
  own empty string is falsy.
\<close>

definition mentionOf :: "ReviewerMappings \<Rightarrow> string \<Rightarrow> string option" where
  "mentionOf reviewerMappings displayName =
     (case reviewerMappings displayName of
        None \<Rightarrow> inherited displayName
      | Some mention \<Rightarrow> if mention \<noteq> [] then Some mention else None)"

text \<open>\<^verbatim>\<open>mention ? `${displayName} - ${mention}` : displayName\<close>.\<close>

definition withMention :: "ReviewerMappings \<Rightarrow> string \<Rightarrow> string" where
  "withMention reviewerMappings displayName =
     (case mentionOf reviewerMappings displayName of
        None \<Rightarrow> displayName
      | Some mention \<Rightarrow> displayName @ '' - '' @ mention)"

definition reviewerLine :: "PullRequest \<Rightarrow> BitbucketUser \<Rightarrow> string" where
  "reviewerLine pr reviewer =
     (case participantInfo pr reviewer of
        None \<Rightarrow> glyph_pending
      | Some participant \<Rightarrow>
          if approved participant then glyph_approved
          else if participant_state participant = Some Changes_requested then glyph_changes
          else glyph_pending)
     @ '' '' @ display_name reviewer"

text \<open>\<^verbatim>\<open>formatPullRequestMessage\<close>; \<^verbatim>\<open>filter(Boolean)\<close> drops the empty lines.\<close>

definition formatPullRequestMessage :: "PullRequest \<Rightarrow> string" where
  "formatPullRequestMessage pr =
     (let reviewersText = join newline (map (reviewerLine pr) (reviewers pr))
      in join newline (filter (\<lambda>line. line \<noteq> [])
        [txt_new_pr,
         [],
         txt_title @ title pr,
         txt_author @ display_name (author pr),
         txt_status @ (if state pr = OPEN then txt_open else state_name (state pr)),
         txt_repository @ source_repository_full_name pr,
         txt_branches @ source_branch_name pr @ txt_arrow @ destination_branch_name pr,
         [],
         txt_reviewers,
         if reviewersText \<noteq> [] then reviewersText else txt_no_reviewers,
         [],
         if description pr \<noteq> [] then join newline [txt_description, description pr, []] else [],
         txt_link @ links_html_href pr]))"

text \<open>The three parts of \<^verbatim>\<open>formatPullRequestUpdateMessage\<close>, then the function.\<close>

definition pendingReviewers :: "ReviewerMappings \<Rightarrow> PullRequest \<Rightarrow> string list" where
  "pendingReviewers reviewerMappings pr =
     map (\<lambda>reviewer. withMention reviewerMappings (display_name reviewer))
       (filter (pendingReviewer pr) (reviewers pr))"

definition allReviewersApproved :: "PullRequest \<Rightarrow> bool" where
  "allReviewersApproved pr =
     (length (reviewers pr) > 0 \<and>
      list_all (\<lambda>reviewer.
          case participantInfo pr reviewer of
            None \<Rightarrow> False
          | Some participant \<Rightarrow> approved participant)
        (reviewers pr))"

definition allApprovedMessage :: "ReviewerMappings \<Rightarrow> PullRequest \<Rightarrow> string" where
  "allApprovedMessage reviewerMappings pr =
     join newline
       [txt_all_approved,
        withMention reviewerMappings (display_name (author pr)) @ txt_ready,
        ''PR: '' @ title pr,
        [],
        txt_approved_list,
        join newline (map (\<lambda>reviewer. glyph_approved @ '' '' @ display_name reviewer) (reviewers pr)),
        [],
        txt_link @ links_html_href pr]"

definition reminderMessage :: "PullRequest \<Rightarrow> string list \<Rightarrow> string" where
  "reminderMessage pr names =
     join newline
       ([txt_reminder, ''PR: '' @ title pr, [], txt_waiting]
        @ map (\<lambda>name. txt_bullet @ name) names
        @ [[], txt_link @ links_html_href pr])"

definition formatPullRequestUpdateMessage :: "ReviewerMappings \<Rightarrow> PullRequest \<Rightarrow> string option" where
  "formatPullRequestUpdateMessage reviewerMappings pr =
     (if state pr = OPEN \<and> allReviewersApproved pr
      then Some (allApprovedMessage reviewerMappings pr)
      else if length (pendingReviewers reviewerMappings pr) > 0
      then Some (reminderMessage pr (pendingReviewers reviewerMappings pr))
      else None)"

section \<open>The thread store (\<^verbatim>\<open>message-store.service.ts\<close>)\<close>

text \<open>
  The store object maps a pull-request id to its entry. It is an association list read
  with \<^const>\<open>map_of\<close>, written with \<^const>\<open>AList.update\<close> and \<^const>\<open>AList.delete\<close>,
  so that \<^verbatim>\<open>Object.entries\<close> can enumerate it. Pull-request ids are integers; the
  property key of an id and the number of a key (\<^verbatim>\<open>pr.id.toString()\<close>, \<^verbatim>\<open>+prId\<close>)
  are inverse to each other on integers, so keys are kept as integers throughout.
\<close>

record StoreEntry =
  messageId :: string
  repository :: string
  updatedAt :: string

type_synonym MessageStore = "(int \<times> StoreEntry) list"

datatype failure =
    HttpError "nat option"
  | InvalidMessageData
  | MessageIdVerificationFailed
  | PRRemovalVerificationFailed
  | FileSystemError

text \<open>
  \<^verbatim>\<open>error.response?.status\<close> of a caught error: only the errors of the HTTP client
  carry a response.
\<close>

fun response_status :: "failure \<Rightarrow> nat option" where
  "response_status (HttpError status) = status"
| "response_status _ = None"

text \<open>
  What the outside does during one \<^verbatim>\<open>await this.saveStore()\<close>: the file operations
  fail or not, and the other activity of the process (the poll cycle and the queue worker
  share the store and interleave at every await) may have changed the in-memory store
  when the call resumes.
\<close>

record io =
  fsFails :: bool
  concurrent :: "MessageStore \<Rightarrow> MessageStore"

definition quiet :: "io \<Rightarrow> bool" where
  "quiet env = (\<not> fsFails env \<and> concurrent env = (\<lambda>store. store))"

type_synonym 'a outcome = "(failure + 'a) \<times> MessageStore"

definition saveStore :: "io \<Rightarrow> MessageStore \<Rightarrow> unit outcome" where
  "saveStore env store =
     (if fsFails env then Inl FileSystemError else Inr (), concurrent env store)"

definition getMessageId :: "MessageStore \<Rightarrow> int \<Rightarrow> string option" where
  "getMessageId store prId =
     (case map_of store prId of
        None \<Rightarrow> None
      | Some entry \<Rightarrow> if messageId entry \<noteq> [] then Some (messageId entry) else None)"

text \<open>
  \<^verbatim>\<open>saveMessageId\<close>. Its caller passes \<^verbatim>\<open>threadResponse.data?.data?.id?.toString()\<close>,
  which may be \<^verbatim>\<open>undefined\<close>: the message id is an option. The time stamp
  \<^verbatim>\<open>new Date().toISOString()\<close> is the argument \<open>now\<close>.
\<close>

definition saveMessageId ::
  "io \<Rightarrow> string \<Rightarrow> int \<Rightarrow> string option \<Rightarrow> string \<Rightarrow> MessageStore \<Rightarrow> unit outcome" where
  "saveMessageId env now prId messageId' repository' store =
     (case messageId' of
        None \<Rightarrow> (Inl InvalidMessageData, store)
      | Some mid \<Rightarrow>
          if mid = [] \<or> prId = 0 \<or> repository' = [] then (Inl InvalidMessageData, store)
          else
            (case saveStore env
                (AList.update prId
                   \<lparr>messageId = mid, repository = repository', updatedAt = now\<rparr> store) of
               (Inl e, store') \<Rightarrow> (Inl e, store')
             | (Inr _, store') \<Rightarrow>
                 if getMessageId store' prId \<noteq> Some mid
                 then (Inl MessageIdVerificationFailed, store')
                 else (Inr (), store')))"

definition removePR :: "io \<Rightarrow> int \<Rightarrow> string \<Rightarrow> MessageStore \<Rightarrow> unit outcome" where
  "removePR env prId repository' store =
     (case map_of store prId of
        None \<Rightarrow> (Inr (), store)
      | Some storedPR \<Rightarrow>
          if repository storedPR \<noteq> repository' then (Inr (), store)
          else
            (case saveStore env (AList.delete prId store) of
               (Inl e, store') \<Rightarrow> (Inl e, store')
             | (Inr _, store') \<Rightarrow>
                 if map_of store' prId \<noteq> None
                 then (Inl PRRemovalVerificationFailed, store')
                 else (Inr (), store')))"

record StoredPR =
  stored_prId :: int
  stored_repository :: string
  stored_messageId :: string

text \<open>
  \<^verbatim>\<open>getAllPRs\<close>. \<^verbatim>\<open>Object.entries\<close> lists integer keys in ascending order.
\<close>

definition getAllPRs :: "MessageStore \<Rightarrow> StoredPR list" where
  "getAllPRs store =
     map (\<lambda>(prId, data).
           \<lparr>stored_prId = prId, stored_repository = repository data,
            stored_messageId = messageId data\<rparr>)
       (sort_key fst store)"

section \<open>The delivery queue (\<^verbatim>\<open>pachka.service.ts\<close>)\<close>

record QueuedMessage =
  message :: string
  parentMessageId :: "string option"
  prId :: "int option"
  queued_repository :: "string option"
  retries :: nat

text \<open>
  The state shared by the services: the store of \<^verbatim>\<open>MessageStoreService\<close>, the queue
  and the flag of \<^verbatim>\<open>PachkaService\<close>.
\<close>

record PachkaState =
  store :: MessageStore
  messageQueue :: "QueuedMessage list"
  isProcessing :: bool

definition MAX_RETRIES :: nat where
  "MAX_RETRIES = 3"

definition queueMessage ::
  "string \<Rightarrow> string option \<Rightarrow> int option \<Rightarrow> string option \<Rightarrow> PachkaState \<Rightarrow> PachkaState" where
  "queueMessage message' parentMessageId' prId' repository' st =
     st\<lparr>messageQueue := messageQueue st @
          [\<lparr>message = message', parentMessageId = parentMessageId', prId = prId',
            queued_repository = repository', retries = 0\<rparr>]\<rparr>"

text \<open>
  \<^verbatim>\<open>sendPullRequestNotification\<close>. Nothing in its \<^verbatim>\<open>try\<close> block throws on a
  well-typed snapshot, so it always returns \<^verbatim>\<open>true\<close>; the model returns the state.
  \<^verbatim>\<open>if (updateMessage)\<close> refuses \<^verbatim>\<open>null\<close> and the empty string.
\<close>

definition sendPullRequestNotification ::
  "ReviewerMappings \<Rightarrow> PullRequest \<Rightarrow> PachkaState \<Rightarrow> PachkaState" where
  "sendPullRequestNotification reviewerMappings pr st =
     (let repository' = source_repository_full_name pr
      in case getMessageId (store st) (pr_id pr) of
           Some existingMessageId \<Rightarrow>
             (case formatPullRequestUpdateMessage reviewerMappings pr of
                None \<Rightarrow> st
              | Some updateMessage \<Rightarrow>
                  if updateMessage \<noteq> []
                  then queueMessage updateMessage (Some existingMessageId)
                         (Some (pr_id pr)) (Some repository') st
                  else st)
         | None \<Rightarrow>
             queueMessage (formatPullRequestMessage pr) None
               (Some (pr_id pr)) (Some repository') st)"

text \<open>
  The chat gateway answers the requests of one delivery attempt. \<open>Inl status\<close> is a
  rejected request with \<^verbatim>\<open>error.response?.status\<close>. For \<^verbatim>\<open>POST /messages\<close>,
  \<open>Inr (Some i)\<close> is a response whose \<^verbatim>\<open>data?.data?.id\<close> is truthy, with
  \<^verbatim>\<open>id.toString()\<close> as \<open>i\<close>, and \<open>Inr None\<close> a response without such an id. For
  \<^verbatim>\<open>POST /messages/{id}/thread\<close>, \<open>Inr t\<close> is \<^verbatim>\<open>data?.data?.id?.toString()\<close>.
\<close>

record gateway =
  postMessage :: "nat option + string option"
  postThread :: "nat option + string option"

datatype request =
    PostToThread string string
  | PostToDiscussion string string
  | CreateThread string

text \<open>
  The inner \<^verbatim>\<open>try\<close> block of \<^verbatim>\<open>processMessageQueue\<close> up to the \<^verbatim>\<open>shift\<close>: the
  outcome, the requests sent and the store. \<open>deliverReply\<close> is the branch of a truthy
  \<^verbatim>\<open>parentMessageId\<close>, \<open>deliverRoot\<close> the other one.
\<close>

definition deliverReply ::
  "gateway \<Rightarrow> string \<Rightarrow> QueuedMessage \<Rightarrow> MessageStore
     \<Rightarrow> (failure + unit) \<times> request list \<times> MessageStore" where
  "deliverReply gw parent msg store' =
     (case postMessage gw of
        Inl status \<Rightarrow> (Inl (HttpError status), [PostToThread parent (message msg)], store')
      | Inr _ \<Rightarrow> (Inr (), [PostToThread parent (message msg)], store'))"

definition deliverRoot ::
  "string \<Rightarrow> gateway \<Rightarrow> io \<Rightarrow> string \<Rightarrow> QueuedMessage \<Rightarrow> MessageStore
     \<Rightarrow> (failure + unit) \<times> request list \<times> MessageStore" where
  "deliverRoot chatId gw env now msg store' =
     (case postMessage gw of
        Inl status \<Rightarrow> (Inl (HttpError status), [PostToDiscussion chatId (message msg)], store')
      | Inr None \<Rightarrow> (Inr (), [PostToDiscussion chatId (message msg)], store')
      | Inr (Some messageId') \<Rightarrow>
          (case postThread gw of
             Inl status \<Rightarrow>
               (Inl (HttpError status),
                [PostToDiscussion chatId (message msg), CreateThread messageId'], store')
           | Inr threadId \<Rightarrow>
               (case (prId msg, queued_repository msg) of
                  (Some prId', Some repository') \<Rightarrow>
                    if prId' \<noteq> 0 \<and> repository' \<noteq> [] then
                      (case saveMessageId env now prId' threadId repository' store' of
                         (r, store'') \<Rightarrow>
                           (r, [PostToDiscussion chatId (message msg), CreateThread messageId'],
                            store''))
                    else
                      (Inr (),
                       [PostToDiscussion chatId (message msg), CreateThread messageId'], store')
                | _ \<Rightarrow>
                    (Inr (),
                     [PostToDiscussion chatId (message msg), CreateThread messageId'], store'))))"

definition deliver ::
  "string \<Rightarrow> gateway \<Rightarrow> io \<Rightarrow> string \<Rightarrow> QueuedMessage \<Rightarrow> MessageStore
     \<Rightarrow> (failure + unit) \<times> request list \<times> MessageStore" where
  "deliver chatId gw env now msg store' =
     (case parentMessageId msg of
        None \<Rightarrow> deliverRoot chatId gw env now msg store'
      | Some parent \<Rightarrow>
          if parent \<noteq> [] then deliverReply gw parent msg store'
          else deliverRoot chatId gw env now msg store')"

text \<open>
  The end of the attempt: \<^verbatim>\<open>shift\<close> after a success, and the \<^verbatim>\<open>catch\<close> block. The
  local \<^verbatim>\<open>message\<close> is the object at index 0 of the queue (only \<^verbatim>\<open>push\<close> touches the
  queue while the attempt runs), so \<^verbatim>\<open>message.retries++\<close> changes the head in place.
\<close>

fun settle :: "(failure + unit) \<Rightarrow> QueuedMessage list \<Rightarrow> QueuedMessage list" where
  "settle outcome [] = []"
| "settle (Inr _) (msg # rest) = rest"
| "settle (Inl error) (msg # rest) =
     (if response_status error = Some 429 then
        (if retries msg < MAX_RETRIES then msg\<lparr>retries := retries msg + 1\<rparr> # rest
         else rest)
      else rest)"

text \<open>
  \<^verbatim>\<open>processMessageQueue\<close> in two halves, split where the function first awaits:
  \<open>startDrain\<close> is the guard, the flag and the read of the head; \<open>finishDrain\<close> is the
  attempt, its end and the \<^verbatim>\<open>finally\<close> block.
\<close>

definition startDrain :: "PachkaState \<Rightarrow> (QueuedMessage \<times> PachkaState) option" where
  "startDrain st =
     (if isProcessing st \<or> length (messageQueue st) = 0 then None
      else Some (hd (messageQueue st), st\<lparr>isProcessing := True\<rparr>))"

definition finishDrain ::
  "string \<Rightarrow> gateway \<Rightarrow> io \<Rightarrow> string \<Rightarrow> QueuedMessage \<Rightarrow> PachkaState
     \<Rightarrow> PachkaState \<times> request list" where
  "finishDrain chatId gw env now msg st =
     (case deliver chatId gw env now msg (store st) of
        (outcome, requests, store') \<Rightarrow>
          (st\<lparr>store := store', messageQueue := settle outcome (messageQueue st),
              isProcessing := False\<rparr>,
           requests))"

definition processMessageQueue ::
  "string \<Rightarrow> gateway \<Rightarrow> io \<Rightarrow> string \<Rightarrow> PachkaState \<Rightarrow> PachkaState \<times> request list" where
  "processMessageQueue chatId gw env now st =
     (case startDrain st of
        None \<Rightarrow> (st, [])
      | Some (msg, st') \<Rightarrow> finishDrain chatId gw env now msg st')"

text \<open>\<^verbatim>\<open>removeFromStore\<close> catches and logs what \<^verbatim>\<open>removePR\<close> throws.\<close>

definition removeFromStore :: "io \<Rightarrow> int \<Rightarrow> string \<Rightarrow> PachkaState \<Rightarrow> PachkaState" where
  "removeFromStore env prId' repository' st =
     st\<lparr>store := snd (removePR env prId' repository' (store st))\<rparr>"

definition getAllStoredPRs :: "PachkaState \<Rightarrow> StoredPR list" where
  "getAllStoredPRs st = getAllPRs (store st)"

text \<open>
  The worker and the producers interleaved. A system state is the shared state with the
  \<^verbatim>\<open>message\<close> held by the invocation of \<^verbatim>\<open>processMessageQueue\<close> that is suspended
  in its attempt, if there is one. \<open>Trigger\<close> is a tick of the drain timer, \<open>Complete\<close>
  the rest of the suspended invocation with the answers of the gateway, \<open>Enqueue\<close> a call
  of \<^verbatim>\<open>queueMessage\<close>, and \<open>Remove\<close> a call of \<^verbatim>\<open>removeFromStore\<close> by the
  poll cycle. An event gives the next state and the requests that the gateway receives
  in it; the requests of an attempt are counted at its end.
\<close>

datatype event =
    Enqueue string "string option" "int option" "string option"
  | Trigger
  | Complete gateway io string
  | Remove io int string

type_synonym system = "PachkaState \<times> QueuedMessage option"

fun fire :: "string \<Rightarrow> event \<Rightarrow> system \<Rightarrow> system \<times> request list" where
  "fire chatId (Enqueue message' parentMessageId' prId' repository') (st, inFlight) =
     ((queueMessage message' parentMessageId' prId' repository' st, inFlight), [])"
| "fire chatId Trigger (st, inFlight) =
     (case startDrain st of
        None \<Rightarrow> ((st, inFlight), [])
      | Some (msg, st') \<Rightarrow> ((st', Some msg), []))"
| "fire chatId (Complete gw env now) (st, inFlight) =
     (case inFlight of
        None \<Rightarrow> ((st, inFlight), [])
      | Some msg \<Rightarrow>
          (case finishDrain chatId gw env now msg st of
             (st', requests) \<Rightarrow> ((st', None), requests)))"
| "fire chatId (Remove env prId' repository') (st, inFlight) =
     ((removeFromStore env prId' repository' st, inFlight), [])"

text \<open>A run of events: the last state and all requests, in the order they were sent.\<close>

fun run :: "string \<Rightarrow> event list \<Rightarrow> system \<Rightarrow> system \<times> request list" where
  "run chatId [] sys = (sys, [])"
| "run chatId (ev # evs) sys =
     (case fire chatId ev sys of
        (sys', requests) \<Rightarrow>
          (case run chatId evs sys' of
             (sys'', requests') \<Rightarrow> (sys'', requests @ requests')))"

inductive reachable :: "string \<Rightarrow> system \<Rightarrow> bool" for chatId :: string where
  start: "reachable chatId (\<lparr>store = store', messageQueue = [], isProcessing = False\<rparr>, None)"
| step: "reachable chatId sys \<Longrightarrow> reachable chatId (fst (fire chatId ev sys))"

section \<open>The reconciliation engine (\<^verbatim>\<open>bitbucket.service.ts\<close>)\<close>

record WorkspaceConfig =
  workspace_name :: string
  repositories :: "string list"

text \<open>
  The review system answers the two GET requests of the reader: \<open>Inl status\<close> is a
  rejected request with \<^verbatim>\<open>error.response?.status\<close>.
\<close>

record reader =
  pullrequests :: "string \<Rightarrow> string \<Rightarrow> nat option + PullRequest list"
  pullrequest_state :: "string \<Rightarrow> string \<Rightarrow> int \<Rightarrow> nat option + string"

definition getOpenPullRequests :: "reader \<Rightarrow> string \<Rightarrow> string \<Rightarrow> PullRequest list" where
  "getOpenPullRequests rd workspace repository' =
     (case pullrequests rd workspace repository' of
        Inl _ \<Rightarrow> []
      | Inr values \<Rightarrow> values)"

definition getPRStatus :: "reader \<Rightarrow> string \<Rightarrow> string \<Rightarrow> int \<Rightarrow> failure + string" where
  "getPRStatus rd workspace repository' prId' =
     (case pullrequest_state rd workspace repository' prId' of
        Inr state' \<Rightarrow> Inr state'
      | Inl status \<Rightarrow> if status = Some 404 then Inr ''CLOSED'' else Inl (HttpError status))"

text \<open>
  \<^verbatim>\<open>processAllRepositories\<close>, run once at start-up: every open pull request is passed
  to \<^verbatim>\<open>sendPullRequestNotification\<close>.
\<close>

definition processAllRepositories ::
  "ReviewerMappings \<Rightarrow> reader \<Rightarrow> WorkspaceConfig list \<Rightarrow> PachkaState \<Rightarrow> PachkaState" where
  "processAllRepositories reviewerMappings rd workspaces st =
     fold (\<lambda>workspace.
         fold (\<lambda>repository'.
             fold (sendPullRequestNotification reviewerMappings)
               (getOpenPullRequests rd (workspace_name workspace) repository'))
           (repositories workspace))
       workspaces st"

text \<open>
  \<^verbatim>\<open>checkPullRequests\<close>, the periodic poll. The loop state is the set
  \<^verbatim>\<open>activePRIds\<close> with the shared state. \<open>openStep\<close> is the body of the loop over the
  open pull requests, \<open>sweepStep\<close> the body of the loop over the stored ones, and
  \<open>checkRepository\<close> the body of the loop over the repositories. \<open>envs\<close> gives the
  outside of each removal. The outer \<^verbatim>\<open>catch\<close> is not reached: every call in the
  \<^verbatim>\<open>try\<close> block catches its own errors.
\<close>

definition openStep ::
  "ReviewerMappings \<Rightarrow> PullRequest \<Rightarrow> int set \<times> PachkaState \<Rightarrow> int set \<times> PachkaState" where
  "openStep reviewerMappings pr acc =
     (case acc of (activePRIds, st) \<Rightarrow>
        (insert (pr_id pr) activePRIds,
         if hasPendingReviewers pr then sendPullRequestNotification reviewerMappings pr st
         else st))"

definition sweepStep ::
  "reader \<Rightarrow> (string \<Rightarrow> string \<Rightarrow> int \<Rightarrow> io) \<Rightarrow> string \<Rightarrow> string \<Rightarrow> int set
     \<Rightarrow> StoredPR \<Rightarrow> PachkaState \<Rightarrow> PachkaState" where
  "sweepStep rd envs workspace repository' activePRIds storedPR st =
     (if stored_prId storedPR \<in> activePRIds then st
      else
        (case getPRStatus rd workspace repository' (stored_prId storedPR) of
           Inl _ \<Rightarrow> st
         | Inr prStatus \<Rightarrow>
             if prStatus \<noteq> ''OPEN''
             then removeFromStore (envs workspace repository' (stored_prId storedPR))
                    (stored_prId storedPR) repository' st
             else st))"

definition checkRepository ::
  "ReviewerMappings \<Rightarrow> reader \<Rightarrow> (string \<Rightarrow> string \<Rightarrow> int \<Rightarrow> io) \<Rightarrow> StoredPR list
     \<Rightarrow> string \<Rightarrow> string \<Rightarrow> int set \<times> PachkaState \<Rightarrow> int set \<times> PachkaState" where
  "checkRepository reviewerMappings rd envs storedPRs workspace repository' acc =
     (case fold (openStep reviewerMappings) (getOpenPullRequests rd workspace repository') acc of
        (activePRIds, st) \<Rightarrow>
          (activePRIds,
           fold (sweepStep rd envs workspace repository' activePRIds)
             (filter (\<lambda>pr. stored_repository pr = repository') storedPRs) st))"

definition checkPullRequests ::
  "bool \<Rightarrow> ReviewerMappings \<Rightarrow> reader \<Rightarrow> (string \<Rightarrow> string \<Rightarrow> int \<Rightarrow> io)
     \<Rightarrow> WorkspaceConfig list \<Rightarrow> PachkaState \<Rightarrow> PachkaState" where
  "checkPullRequests isWorkingHours reviewerMappings rd envs workspaces st =
     (if \<not> isWorkingHours then st
      else
        snd (fold (\<lambda>workspace.
                 fold (checkRepository reviewerMappings rd envs (getAllStoredPRs st)
                         (workspace_name workspace))
                   (repositories workspace))
               workspaces ({}, st)))"

section \<open>The words of the specification and of its amendments\<close>

text \<open>
  A pending reviewer as the specification defines it: no participation record of the
  reviewer's identity, or a record that is not approved and whose state is not
  \<^verbatim>\<open>changes_requested\<close>. Any record of the identity counts, not only the first.
\<close>

definition pendingBySpec :: "PullRequest \<Rightarrow> BitbucketUser \<Rightarrow> bool" where
  "pendingBySpec pr reviewer =
     ((\<forall>p\<in>set (participants pr). account_id (user p) \<noteq> account_id reviewer) \<or>
      (\<exists>p\<in>set (participants pr). account_id (user p) = account_id reviewer \<and>
          \<not> approved p \<and> participant_state p \<noteq> Some Changes_requested))"

text \<open>
  The first participation record of a reviewer's identity, in the order of the
  snapshot's list of records, and a reviewer that is pending by that record: there is
  none, or it is not approved and its state is not \<^verbatim>\<open>changes_requested\<close>.
\<close>

definition firstRecord :: "PullRequest \<Rightarrow> BitbucketUser \<Rightarrow> Participant option" where
  "firstRecord pr reviewer =
     (case dropWhile (\<lambda>p. account_id (user p) \<noteq> account_id reviewer) (participants pr) of
        [] \<Rightarrow> None
      | p # later \<Rightarrow> Some p)"

definition pendingByFirstRecord :: "PullRequest \<Rightarrow> BitbucketUser \<Rightarrow> bool" where
  "pendingByFirstRecord pr reviewer =
     (case firstRecord pr reviewer of
        None \<Rightarrow> True
      | Some p \<Rightarrow> \<not> approved p \<and> participant_state p \<noteq> Some Changes_requested)"

text \<open>The root message that announces a pull request, as \<^verbatim>\<open>queueMessage\<close> stores it.\<close>

definition announcement :: "PullRequest \<Rightarrow> QueuedMessage" where
  "announcement pr =
     \<lparr>message = formatPullRequestMessage pr, parentMessageId = None, prId = Some (pr_id pr),
      queued_repository = Some (source_repository_full_name pr), retries = 0\<rparr>"

section \<open>Concrete inputs\<close>

definition userA :: BitbucketUser where
  "userA = \<lparr>display_name = ''A'', account_id = ''acc-a''\<rparr>"

definition userB :: BitbucketUser where
  "userB = \<lparr>display_name = ''B'', account_id = ''acc-b''\<rparr>"

definition userC :: BitbucketUser where
  "userC = \<lparr>display_name = ''C'', account_id = ''acc-c''\<rparr>"

text \<open>Pull request 1 of the scenarios: A has approved, B has not answered.\<close>

definition pr1 :: PullRequest where
  "pr1 =
     \<lparr>pr_id = 1, title = ''Fix login'', description = [], created_on = ''2024-05-06'',
      updated_on = ''2024-05-07'', state = OPEN, author = userC, reviewers = [userA, userB],
      participants =
        [\<lparr>user = userA, role = REVIEWER, approved = True, participant_state = Some Approved\<rparr>,
         \<lparr>user = userB, role = REVIEWER, approved = False, participant_state = Some Pending\<rparr>],
      source_branch_name = ''feature'', source_repository_full_name = ''app'',
      destination_branch_name = ''main'', links_html_href = ''https://example.org/pr/1''\<rparr>"

text \<open>The same pull request after B has approved too.\<close>

definition pr1_approved :: PullRequest where
  "pr1_approved =
     pr1\<lparr>participants :=
        [\<lparr>user = userA, role = REVIEWER, approved = True, participant_state = Some Approved\<rparr>,
         \<lparr>user = userB, role = REVIEWER, approved = True, participant_state = Some Approved\<rparr>]\<rparr>"

text \<open>A pull request without reviewers.\<close>

definition pr_unassigned :: PullRequest where
  "pr_unassigned = pr1\<lparr>pr_id := 2, reviewers := [], participants := []\<rparr>"

definition mentions :: ReviewerMappings where
  "mentions = map_of [(''B'', ''@bob''), (''C'', ''@carol'')]"

definition quiet_io :: io where
  "quiet_io = \<lparr>fsFails = False, concurrent = (\<lambda>store. store)\<rparr>"

definition thread1 :: StoreEntry where
  "thread1 = \<lparr>messageId = ''t-1'', repository = ''app'', updatedAt = ''2024-05-06T10:00:00.000Z''\<rparr>"

definition idle :: "MessageStore \<Rightarrow> QueuedMessage list \<Rightarrow> PachkaState" where
  "idle store' queue = \<lparr>store = store', messageQueue = queue, isProcessing = False\<rparr>"

text \<open>A gateway that answers every request with status 429, and one that accepts.\<close>

definition gateway_429 :: gateway where
  "gateway_429 = \<lparr>postMessage = Inl (Some 429), postThread = Inl (Some 429)\<rparr>"

definition gateway_ok :: gateway where
  "gateway_ok = \<lparr>postMessage = Inr (Some ''m-9''), postThread = Inr (Some ''t-9'')\<rparr>"


definition reply1 :: QueuedMessage where
  "reply1 =
     \<lparr>message = ''first'', parentMessageId = Some ''t-1'', prId = Some 1,
      queued_repository = Some ''app'', retries = 0\<rparr>"

definition reply2 :: QueuedMessage where
  "reply2 =
     \<lparr>message = ''second'', parentMessageId = Some ''t-2'', prId = Some 2,
      queued_repository = Some ''app'', retries = 0\<rparr>"


text \<open>
  One workspace with the repository of pull request 1, and a review system in which
  that pull request is open and fully approved.
\<close>

definition team :: "WorkspaceConfig list" where
  "team = [\<lparr>workspace_name = ''team'', repositories = [''app'']\<rparr>]"

definition reader_approved :: reader where
  "reader_approved =
     \<lparr>pullrequests = (\<lambda>workspace repository'. Inr [pr1_approved]),
      pullrequest_state = (\<lambda>workspace repository' prId'. Inr ''OPEN'')\<rparr>"

text \<open>
  Two repositories whose pull requests share the number 7: the one of \<open>web\<close> is
  open, the one of \<open>api\<close>, which owns the stored thread, has been merged.
\<close>

definition pr7 :: PullRequest where
  "pr7 = pr1\<lparr>pr_id := 7, source_repository_full_name := ''web''\<rparr>"

definition two_repositories :: "WorkspaceConfig list" where
  "two_repositories = [\<lparr>workspace_name = ''team'', repositories = [''web'', ''api'']\<rparr>]"

definition reader_shared_number :: reader where
  "reader_shared_number =
     \<lparr>pullrequests = (\<lambda>workspace repository'. if repository' = ''web'' then Inr [pr7] else Inr []),
      pullrequest_state = (\<lambda>workspace repository' prId'. Inr ''MERGED'')\<rparr>"

definition thread7 :: StoreEntry where
  "thread7 = \<lparr>messageId = ''t-7'', repository = ''api'', updatedAt = ''2024-05-06T10:00:00.000Z''\<rparr>"

text \<open>The stored pull request 1 has left the open list and has been merged.\<close>

definition reader_merged :: reader where
  "reader_merged =
     \<lparr>pullrequests = (\<lambda>workspace repository'. Inr []),
      pullrequest_state = (\<lambda>workspace repository' prId'. Inr ''MERGED'')\<rparr>"

text \<open>
  Pull request 1 with two records of A, the unapproved one first: each reviewer has a
  record with \<^verbatim>\<open>approved = true\<close>.
\<close>

definition pr1_reapproved :: PullRequest where
  "pr1_reapproved =
     pr1\<lparr>participants :=
        [\<lparr>user = userA, role = REVIEWER, approved = False, participant_state = Some Pending\<rparr>,
         \<lparr>user = userA, role = REVIEWER, approved = True, participant_state = Some Approved\<rparr>,
         \<lparr>user = userB, role = REVIEWER, approved = True, participant_state = Some Approved\<rparr>]\<rparr>"

text \<open>
  Pull request 1 with two records of A, the approved one first, and no record of B.
\<close>

definition pr1_withdrawn :: PullRequest where
  "pr1_withdrawn =
     pr1\<lparr>participants :=
        [\<lparr>user = userA, role = REVIEWER, approved = True, participant_state = Some Approved\<rparr>,
         \<lparr>user = userA, role = REVIEWER, approved = False, participant_state = Some Pending\<rparr>]\<rparr>"

text \<open>
  Pull request 1 as the review system reports it for repository \<open>app\<close> of workspace
  \<open>team\<close>: the full name of a repository is the workspace and the repository name.
\<close>

definition pr1_team :: PullRequest where
  "pr1_team = pr1\<lparr>source_repository_full_name := ''team/app''\<rparr>"

definition reader_team :: reader where
  "reader_team =
     \<lparr>pullrequests = (\<lambda>workspace repository'. Inr [pr1_team]),
      pullrequest_state = (\<lambda>workspace repository' prId'. Inr ''OPEN'')\<rparr>"

text \<open>The entry that the worker stores for it when its root message has been posted.\<close>

definition thread_team :: StoreEntry where
  "thread_team =
     \<lparr>messageId = ''t-9'', repository = ''team/app'', updatedAt = ''2024-05-06T10:00:05.000Z''\<rparr>"



section \<open>Runs of the delivery worker\<close>

text \<open>
  Consecutive drain triggers, each running to its end before the next one fires: one
  gateway, one outside of the store and one time stamp per trigger.
\<close>

definition drains :: "string \<Rightarrow> (gateway \<times> io \<times> string) list \<Rightarrow> PachkaState \<Rightarrow> PachkaState" where
  "drains chatId attempts st =
     fold (\<lambda>(gw, env, now) st'. fst (processMessageQueue chatId gw env now st')) attempts st"

text \<open>
  The gateway answers an attempt on a message with the rate-limit status: it rejects
  the post of the message with 429, or, for a root message, accepts the post with a
  message id and rejects the creation of the thread with 429.
\<close>

definition isReply :: "QueuedMessage \<Rightarrow> bool" where
  "isReply msg = (case parentMessageId msg of None \<Rightarrow> False | Some parent \<Rightarrow> parent \<noteq> [])"

definition rateLimited :: "gateway \<Rightarrow> QueuedMessage \<Rightarrow> bool" where
  "rateLimited gw msg =
     (postMessage gw = Inl (Some 429) \<or>
      (\<not> isReply msg \<and> (\<exists>i. postMessage gw = Inr (Some i)) \<and> postThread gw = Inl (Some 429)))"

text \<open>The request that posts a message: the first one of every attempt on it.\<close>

definition postOf :: "string \<Rightarrow> QueuedMessage \<Rightarrow> request" where
  "postOf chatId msg =
     (case parentMessageId msg of
        None \<Rightarrow> PostToDiscussion chatId (message msg)
      | Some parent \<Rightarrow>
          if parent \<noteq> [] then PostToThread parent (message msg)
          else PostToDiscussion chatId (message msg))"

definition isEnqueue :: "event \<Rightarrow> bool" where
  "isEnqueue ev = (case ev of Enqueue m p i r \<Rightarrow> True | _ \<Rightarrow> False)"

section \<open>The order of a poll cycle\<close>

text \<open>
  The pairs of workspace and repository in the order in which the nested loops of
  \<^verbatim>\<open>checkPullRequests\<close> poll them.
\<close>

definition polled :: "WorkspaceConfig list \<Rightarrow> (string \<times> string) list" where
  "polled workspaces =
     concat (map (\<lambda>workspace.
         map (\<lambda>repository'. (workspace_name workspace, repository')) (repositories workspace))
       workspaces)"

text \<open>The body of the loops of \<^verbatim>\<open>processAllRepositories\<close> for one repository.\<close>

definition startupStep ::
  "ReviewerMappings \<Rightarrow> reader \<Rightarrow> string \<times> string \<Rightarrow> PachkaState \<Rightarrow> PachkaState" where
  "startupStep m rd p st =
     fold (sendPullRequestNotification m) (getOpenPullRequests rd (fst p) (snd p)) st"

text \<open>The answer of the review system to a status query says that the pull request is not open.\<close>

definition answersNotOpen :: "reader \<Rightarrow> string \<Rightarrow> string \<Rightarrow> int \<Rightarrow> bool" where
  "answersNotOpen rd workspace repository' prId' =
     (case pullrequest_state rd workspace repository' prId' of
        Inr state' \<Rightarrow> state' \<noteq> ''OPEN''
      | Inl status \<Rightarrow> status = Some 404)"

text \<open>
  The worker is suspended in its attempt on the first of two queued replies: the state
  after two calls of \<^verbatim>\<open>queueMessage\<close> and a drain trigger.
\<close>

definition busy_system :: system where
  "busy_system =
     (\<lparr>store = [], messageQueue = [reply1, reply2], isProcessing = True\<rparr>, Some reply1)"

definition three_attempts :: "(gateway \<times> io \<times> string) list" where
  "three_attempts =
     [(gateway_429, quiet_io, ''2024-05-06T10:00:05.000Z''),
      (gateway_429, quiet_io, ''2024-05-06T10:00:10.000Z''),
      (gateway_429, quiet_io, ''2024-05-06T10:00:15.000Z'')]"

section \<open>Facts about the renderer\<close>

lemma allApprovedMessage_third: "allApprovedMessage m pr ! 2 = CHR 0x8E"
  by (simp add: allApprovedMessage_def txt_all_approved_def)

lemma reminderMessage_third: "reminderMessage pr names ! 2 = CHR 0x94"
  by (simp add: reminderMessage_def txt_reminder_def)

lemma allApproved_not_reminder: "allApprovedMessage m pr \<noteq> reminderMessage pr names"
  using allApprovedMessage_third [of m pr] reminderMessage_third [of pr names] by auto

lemma allApprovedMessage_nonempty: "allApprovedMessage m pr \<noteq> []"
  by (simp add: allApprovedMessage_def txt_all_approved_def)

lemma reminderMessage_nonempty: "reminderMessage pr names \<noteq> []"
  by (simp add: reminderMessage_def txt_reminder_def)

lemma find_first:
  "find P xs = (case dropWhile (\<lambda>x. \<not> P x) xs of [] \<Rightarrow> None | x # later \<Rightarrow> Some x)"
  by (induction xs) simp_all

lemma join_cons: "ys \<noteq> [] \<Longrightarrow> join sep (x # ys) = x @ sep @ join sep ys"
  by (cases ys) simp_all

lemma join_lines: "join sep (map f xs @ [a, b]) = concat (map (\<lambda>x. f x @ sep) xs) @ a @ sep @ b"
  by (induction xs) (simp_all add: join_cons)

lemma reminderMessage_text:
  "reminderMessage pr names =
     txt_reminder @ newline @ ''PR: '' @ title pr @ newline @ newline @ txt_waiting @ newline @
     concat (map (\<lambda>name. txt_bullet @ name @ newline) names) @
     newline @ txt_link @ links_html_href pr"
proof -
  have "join newline (map (\<lambda>name. txt_bullet @ name) names @ [[], txt_link @ links_html_href pr]) =
      concat (map (\<lambda>name. txt_bullet @ name @ newline) names) @
      newline @ txt_link @ links_html_href pr"
    using join_lines [of newline "\<lambda>name. txt_bullet @ name" names "[]" "txt_link @ links_html_href pr"]
    by simp
  then show ?thesis
    by (simp add: reminderMessage_def join_cons)
qed

section \<open>Facts about the thread store\<close>

lemma map_of_update_same: "map_of (AList.update k v al) k = Some v"
  by (simp add: update_conv')

section \<open>Facts about the delivery queue\<close>

lemma deliver_rateLimited:
  assumes "rateLimited gw msg"
  shows "\<exists>more. deliver chatId gw env now msg s =
           (Inl (HttpError (Some 429)), postOf chatId msg # more, s)"
  using assms
  by (auto simp: rateLimited_def deliver_def deliverRoot_def deliverReply_def postOf_def
      isReply_def split: option.splits)

lemma deliver_requests:
  "fst (snd (deliver chatId gw env now msg s)) = [postOf chatId msg] \<or>
   (\<exists>i. fst (snd (deliver chatId gw env now msg s)) = [postOf chatId msg, CreateThread i])"
  by (auto simp: deliver_def deliverRoot_def deliverReply_def postOf_def
      split: option.splits sum.splits prod.splits)

lemma postOf_retries [simp]: "postOf chatId (msg\<lparr>retries := k\<rparr>) = postOf chatId msg"
  by (simp add: postOf_def split: option.splits)

lemma rateLimited_retries [simp]: "rateLimited gw (msg\<lparr>retries := k\<rparr>) = rateLimited gw msg"
  by (simp add: rateLimited_def isReply_def)

lemma drain_rateLimited:
  assumes "\<not> isProcessing st" and "messageQueue st = msg # rest" and "rateLimited gw msg"
  shows "fst (processMessageQueue chatId gw env now st) =
           st\<lparr>messageQueue :=
                (if retries msg < MAX_RETRIES then msg\<lparr>retries := retries msg + 1\<rparr> # rest
                 else rest)\<rparr>"
proof -
  from deliver_rateLimited [OF assms(3), of chatId env now "store st"]
  obtain more where
    "deliver chatId gw env now msg (store st) =
       (Inl (HttpError (Some 429)), postOf chatId msg # more, store st)"
    by blast
  then show ?thesis
    using assms(1,2) by (simp add: processMessageQueue_def startDrain_def finishDrain_def)
qed

lemma drains_rateLimited:
  assumes "\<not> isProcessing st" and "messageQueue st = msg # rest"
    and "\<forall>a\<in>set attempts. rateLimited (fst a) msg"
    and "retries msg + length attempts \<le> MAX_RETRIES"
  shows "drains chatId attempts st =
           st\<lparr>messageQueue := msg\<lparr>retries := retries msg + length attempts\<rparr> # rest\<rparr>"
  using assms
proof (induction attempts arbitrary: st msg)
  case Nil
  then show ?case by (simp add: drains_def)
next
  case (Cons a attempts)
  obtain gw env now where a: "a = (gw, env, now)" by (cases a)
  let ?st = "st\<lparr>messageQueue := msg\<lparr>retries := retries msg + 1\<rparr> # rest\<rparr>"
  have lim: "rateLimited gw msg" using Cons.prems(3) a by simp
  have lt: "retries msg < MAX_RETRIES" using Cons.prems(4) by simp
  have one: "fst (processMessageQueue chatId gw env now st) = ?st"
    using drain_rateLimited [OF Cons.prems(1,2) lim, of chatId env now] lt by simp
  have "drains chatId attempts ?st =
          ?st\<lparr>messageQueue := (msg\<lparr>retries := retries msg + 1\<rparr>)
                \<lparr>retries := retries (msg\<lparr>retries := retries msg + 1\<rparr>) + length attempts\<rparr> # rest\<rparr>"
    using Cons.prems by (intro Cons.IH) auto
  then show ?case
    using one a by (simp add: drains_def)
qed

lemma drains_append:
  "drains chatId (xs @ ys) st = drains chatId ys (drains chatId xs st)"
  by (simp add: drains_def)

lemma reachable_head:
  assumes "reachable chatId sys"
  shows "case snd sys of
           None \<Rightarrow> \<not> isProcessing (fst sys)
         | Some msg \<Rightarrow> isProcessing (fst sys) \<and> messageQueue (fst sys) \<noteq> [] \<and>
             hd (messageQueue (fst sys)) = msg"
  using assms
proof (induction rule: reachable.induct)
  case (start store')
  then show ?case by simp
next
  case (step sys ev)
  obtain st w where sys: "sys = (st, w)" by (cases sys)
  show ?case
  proof (cases ev)
    case (Enqueue a b c d)
    with step.IH sys show ?thesis
      by (auto simp: queueMessage_def split: option.splits)
  next
    case Trigger
    with step.IH sys show ?thesis
      by (auto simp: startDrain_def split: option.splits)
  next
    case (Complete gw env now)
    with step.IH sys show ?thesis
      by (auto simp: finishDrain_def split: option.splits prod.splits)
  next
    case (Remove env j r)
    with step.IH sys show ?thesis
      by (auto simp: removeFromStore_def split: option.splits)
  qed
qed

lemma run_append:
  "run chatId (xs @ ys) sys =
     (case run chatId xs sys of
        (sys', requests) \<Rightarrow>
          (case run chatId ys sys' of
             (sys'', requests') \<Rightarrow> (sys'', requests @ requests')))"
  by (induction xs arbitrary: sys) (auto split: prod.splits)

lemma run_enqueues:
  assumes "\<forall>ev\<in>set evs. isEnqueue ev"
  shows "\<exists>more. run chatId evs (st, w) =
           ((st\<lparr>messageQueue := messageQueue st @ more\<rparr>, w), [])"
  using assms
proof (induction evs arbitrary: st)
  case Nil
  show ?case by (rule exI [of _ "[]"]) simp
next
  case (Cons ev evs)
  then obtain a b c d where ev: "ev = Enqueue a b c d"
    by (cases ev) (auto simp: isEnqueue_def)
  from Cons obtain more where
    "run chatId evs (queueMessage a b c d st, w) =
       (((queueMessage a b c d st)
          \<lparr>messageQueue := messageQueue (queueMessage a b c d st) @ more\<rparr>, w), [])"
    by (metis list.set_intros(2))
  then show ?case
    using ev by (auto simp: queueMessage_def)
qed

section \<open>Facts about the poll cycle\<close>

lemma sendPullRequestNotification_store [simp]:
  "store (sendPullRequestNotification m pr st) = store st"
  by (simp add: sendPullRequestNotification_def queueMessage_def Let_def split: option.splits)












lemma sweepStep_queue [simp]:
  "messageQueue (sweepStep rd envs w r active sp st) = messageQueue st"
  by (simp add: sweepStep_def removeFromStore_def split: sum.splits)

lemma sweepSteps_queue [simp]:
  "messageQueue (fold (sweepStep rd envs w r active) sps st) = messageQueue st"
  by (induction sps arbitrary: st) simp_all







lemma notifications_store [simp]:
  "store (fold (sendPullRequestNotification m) prs st) = store st"
  by (induction prs arbitrary: st) simp_all




lemma startupSteps_store [simp]: "store (fold (startupStep m rd) pairs st) = store st"
  by (induction pairs arbitrary: st) (simp_all add: startupStep_def)


section \<open>The renderer's classification of an update\<close>

text \<open>
  Claim C4, as the code has it. The renderer reads the first participation record of a
  reviewer's identity and no other. A snapshot has a non-empty reviewer list and state
  Open, and the first record of every reviewer is approved. Then, for an existing
  thread, the renderer returns the all-approved reply, which opens with its header and
  the mention of the author, and its result is no reminder, whatever names a reminder
  would list: the all-approved condition is tested first.
\<close>

theorem all_approved_before_reminder:
  assumes "reviewers pr \<noteq> []" and "state pr = OPEN"
    and "\<forall>r\<in>set (reviewers pr). \<exists>p. firstRecord pr r = Some p \<and> approved p"
  shows "formatPullRequestUpdateMessage m pr = Some (allApprovedMessage m pr) \<and>
         (\<exists>rest. allApprovedMessage m pr =
            txt_all_approved @ newline @
            withMention m (display_name (author pr)) @ txt_ready @ newline @ rest) \<and>
         (\<forall>names. formatPullRequestUpdateMessage m pr \<noteq> Some (reminderMessage pr names))"
proof -
  have lookup: "participantInfo pr r = firstRecord pr r" for r
    by (simp add: participantInfo_def firstRecord_def find_first)
  have "allReviewersApproved pr"
    unfolding allReviewersApproved_def list_all_iff lookup
  proof (intro conjI ballI)
    show "0 < length (reviewers pr)" using assms(1) by simp
  next
    fix r assume "r \<in> set (reviewers pr)"
    with assms(3) obtain p where "firstRecord pr r = Some p" "approved p" by blast
    then show "case firstRecord pr r of None \<Rightarrow> False | Some participant \<Rightarrow> approved participant"
      by simp
  qed
  then have "formatPullRequestUpdateMessage m pr = Some (allApprovedMessage m pr)"
    and "\<forall>names. formatPullRequestUpdateMessage m pr \<noteq> Some (reminderMessage pr names)"
    using assms(2) allApproved_not_reminder by (simp_all add: formatPullRequestUpdateMessage_def)
  moreover have "\<exists>rest. allApprovedMessage m pr =
      txt_all_approved @ newline @
      withMention m (display_name (author pr)) @ txt_ready @ newline @ rest"
    by (simp add: allApprovedMessage_def)
  ultimately show ?thesis by blast
qed

theorem all_approved_before_reminder_witness:
  "reviewers pr1_approved \<noteq> [] \<and> state pr1_approved = OPEN \<and>
   formatPullRequestUpdateMessage mentions pr1_approved =
     Some (allApprovedMessage mentions pr1_approved) \<and>
   formatPullRequestUpdateMessage mentions pr1_approved \<noteq>
     Some (reminderMessage pr1_approved [''B - @bob''])"
proof -
  have nonempty: "reviewers pr1_approved \<noteq> []"
    by (simp add: pr1_approved_def pr1_def)
  have opened: "state pr1_approved = OPEN"
    by (simp add: pr1_approved_def pr1_def)
  have approvals: "\<forall>r\<in>set (reviewers pr1_approved).
      \<exists>p. firstRecord pr1_approved r = Some p \<and> approved p"
    by (simp add: firstRecord_def pr1_approved_def pr1_def userA_def userB_def)
  from all_approved_before_reminder [OF nonempty opened approvals, of mentions] nonempty opened
  show ?thesis by blast
qed

text \<open>
  Claim C4 as the specification states it fails on a snapshot with two records of one
  reviewer: A and B each have a record with \<^verbatim>\<open>approved = true\<close>, the list is not
  empty and the state is Open, yet the first record of A is unapproved, and the renderer
  returns the reminder for A.
\<close>

theorem all_approved_first_record_counterexample:
  "reviewers pr1_reapproved = [userA, userB] \<and> state pr1_reapproved = OPEN \<and>
   (\<exists>p\<in>set (participants pr1_reapproved). account_id (user p) = account_id userA \<and> approved p) \<and>
   (\<exists>p\<in>set (participants pr1_reapproved). account_id (user p) = account_id userB \<and> approved p) \<and>
   formatPullRequestUpdateMessage mentions pr1_reapproved =
     Some (reminderMessage pr1_reapproved [''A'']) \<and>
   formatPullRequestUpdateMessage mentions pr1_reapproved \<noteq>
     Some (allApprovedMessage mentions pr1_reapproved)"
proof -
  have result: "formatPullRequestUpdateMessage mentions pr1_reapproved =
      Some (reminderMessage pr1_reapproved [''A''])"
    by (simp add: formatPullRequestUpdateMessage_def allReviewersApproved_def
        pendingReviewers_def pendingReviewer_def participantInfo_def withMention_def
        mentionOf_def inherited_def objectPrototypeNames_def mentions_def
        pr1_reapproved_def pr1_def userA_def userB_def)
  have "reviewers pr1_reapproved = [userA, userB]" "state pr1_reapproved = OPEN"
    "\<exists>p\<in>set (participants pr1_reapproved). account_id (user p) = account_id userA \<and> approved p"
    "\<exists>p\<in>set (participants pr1_reapproved). account_id (user p) = account_id userB \<and> approved p"
    by (simp_all add: pr1_reapproved_def pr1_def userA_def userB_def)
  with result allApproved_not_reminder [of mentions pr1_reapproved "[''A'']"]
  show ?thesis by simp
qed

text \<open>
  Claim C5, as the code has it. The renderer judges a reviewer by the first participation
  record of its identity (\<^const>\<open>pendingByFirstRecord\<close>): pending when there is none, or
  when the first one is not approved and its state is not \<^verbatim>\<open>changes_requested\<close>. If a
  snapshot has a reviewer that is pending so, the all-approved condition fails, and for
  an existing thread the renderer returns the reminder: its header, the title, and one
  line for each pending reviewer and for no other, in the order of the snapshot's
  reviewer list, then the link. A reviewer is shown as its display name followed by its
  mention where the mapping holds a non-empty mention for the name, and as its display
  name alone where the mapping holds an empty mention, or holds none and the name is not
  the name of a member that the mapping object inherits.
\<close>

theorem reminder_lists_pending:
  assumes "\<exists>r\<in>set (reviewers pr). pendingByFirstRecord pr r"
  shows "formatPullRequestUpdateMessage m pr =
           Some (txt_reminder @ newline @ ''PR: '' @ title pr @ newline @ newline @
                 txt_waiting @ newline @
                 concat (map (\<lambda>r. txt_bullet @ withMention m (display_name r) @ newline)
                           (filter (pendingByFirstRecord pr) (reviewers pr))) @
                 newline @ txt_link @ links_html_href pr) \<and>
         (\<forall>name mention. m name = Some mention \<and> mention \<noteq> [] \<longrightarrow>
            withMention m name = name @ '' - '' @ mention) \<and>
         (\<forall>name. m name = Some [] \<longrightarrow> withMention m name = name) \<and>
         (\<forall>name. m name = None \<and> name \<notin> set objectPrototypeNames \<longrightarrow>
            withMention m name = name)"
proof -
  have eq: "pendingReviewer pr = pendingByFirstRecord pr"
    by (rule ext)
      (simp add: pendingReviewer_def pendingByFirstRecord_def participantInfo_def
        firstRecord_def find_first)
  from assms obtain r where r: "r \<in> set (reviewers pr)" "pendingReviewer pr r"
    unfolding eq by blast
  then have no: "\<not> allReviewersApproved pr"
    by (fastforce simp: allReviewersApproved_def list_all_iff pendingReviewer_def
        split: option.splits)
  have some: "filter (pendingByFirstRecord pr) (reviewers pr) \<noteq> []"
    using assms by (simp add: filter_empty_conv)
  have "formatPullRequestUpdateMessage m pr =
      Some (reminderMessage pr
        (map (\<lambda>r. withMention m (display_name r))
           (filter (pendingByFirstRecord pr) (reviewers pr))))"
    using no some
    by (simp add: formatPullRequestUpdateMessage_def pendingReviewers_def eq)
  then have text': "formatPullRequestUpdateMessage m pr =
           Some (txt_reminder @ newline @ ''PR: '' @ title pr @ newline @ newline @
                 txt_waiting @ newline @
                 concat (map (\<lambda>r. txt_bullet @ withMention m (display_name r) @ newline)
                           (filter (pendingByFirstRecord pr) (reviewers pr))) @
                 newline @ txt_link @ links_html_href pr)"
    using join_lines [of newline "\<lambda>name. txt_bullet @ name"
        "map (\<lambda>r. withMention m (display_name r)) (filter (pendingByFirstRecord pr) (reviewers pr))"
        "[]" "txt_link @ links_html_href pr"]
    by (simp add: reminderMessage_def join_cons comp_def)
  have names: "name \<notin> set objectPrototypeNames \<Longrightarrow> inherited name = None" for name
    by (simp add: inherited_def objectPrototypeNames_def)
  from text' names show ?thesis
    by (simp add: withMention_def mentionOf_def)
qed

theorem reminder_lists_pending_witness:
  "filter (pendingByFirstRecord pr1) (reviewers pr1) = [userB] \<and>
   formatPullRequestUpdateMessage mentions pr1 = Some (reminderMessage pr1 [''B - @bob'']) \<and>
   withMention mentions ''A'' = ''A''"
proof -
  have pending: "filter (pendingByFirstRecord pr1) (reviewers pr1) = [userB]"
    by (simp add: pendingByFirstRecord_def firstRecord_def pr1_def userA_def userB_def)
  then have some: "\<exists>r\<in>set (reviewers pr1). pendingByFirstRecord pr1 r"
    by (metis filter_empty_conv list.distinct(1))
  have bob: "mentions ''B'' = Some ''@bob''" and unmapped: "mentions ''A'' = None"
    and plain: "''A'' \<notin> set objectPrototypeNames"
    by (simp_all add: mentions_def objectPrototypeNames_def)
  note main = reminder_lists_pending [OF some, of mentions]
  from main bob have "withMention mentions ''B'' = ''B - @bob''"
    by (metis append_Cons append_Nil list.distinct(1))
  moreover from main unmapped plain have "withMention mentions ''A'' = ''A''"
    by blast
  moreover have "display_name userB = ''B''"
    by (simp add: userB_def)
  ultimately show ?thesis
    using main pending by (simp add: reminderMessage_text)
qed

text \<open>
  Claim C5 as the specification states it fails twice. On a snapshot with two records of
  A, the approved one first, and no record of B, both reviewers are pending in the
  specification's sense and B has no approved record, yet the reminder lists B alone.
  And a reviewer whose display name is \<^verbatim>\<open>toString\<close>, which the mapping does not
  hold, is not shown by the display name alone.
\<close>

theorem reminder_pending_counterexample:
  "filter (pendingBySpec pr1_withdrawn) (reviewers pr1_withdrawn) = [userA, userB] \<and>
   \<not> (\<exists>p\<in>set (participants pr1_withdrawn). account_id (user p) = account_id userB \<and> approved p) \<and>
   formatPullRequestUpdateMessage mentions pr1_withdrawn =
     Some (reminderMessage pr1_withdrawn [''B - @bob'']) \<and>
   reminderMessage pr1_withdrawn [''B - @bob''] \<noteq>
     reminderMessage pr1_withdrawn [''A'', ''B - @bob''] \<and>
   mentions ''toString'' = None \<and>
   withMention mentions ''toString'' = ''toString - function toString() { [native code] }''"
proof -
  have spec: "filter (pendingBySpec pr1_withdrawn) (reviewers pr1_withdrawn) = [userA, userB]"
    and unapproved: "\<not> (\<exists>p\<in>set (participants pr1_withdrawn).
        account_id (user p) = account_id userB \<and> approved p)"
    by (simp_all add: pendingBySpec_def pr1_withdrawn_def pr1_def userA_def userB_def)
  have result: "formatPullRequestUpdateMessage mentions pr1_withdrawn =
      Some (reminderMessage pr1_withdrawn [''B - @bob''])"
    by (simp add: formatPullRequestUpdateMessage_def allReviewersApproved_def
        pendingReviewers_def pendingReviewer_def participantInfo_def withMention_def
        mentionOf_def mentions_def pr1_withdrawn_def pr1_def userA_def userB_def)
  have differ: "reminderMessage pr1_withdrawn [''B - @bob''] \<noteq>
      reminderMessage pr1_withdrawn [''A'', ''B - @bob'']"
    by (simp add: reminderMessage_text txt_bullet_def)
  have inherited': "mentions ''toString'' = None"
    "withMention mentions ''toString'' = ''toString - function toString() { [native code] }''"
    by (simp_all add: withMention_def mentionOf_def inherited_def objectPrototypeNames_def
        mentions_def)
  from spec unapproved result differ inherited' show ?thesis
    by (intro conjI)
qed

text \<open>
  Claim C6. For a snapshot without reviewers the renderer of updates returns nothing, so
  that for an existing thread \<^verbatim>\<open>sendPullRequestNotification\<close> leaves the queue and
  the store as they are.
\<close>

theorem no_reviewers_no_change:
  assumes "reviewers pr = []"
  shows "formatPullRequestUpdateMessage m pr = None \<and>
         (\<forall>st thread. getMessageId (store st) (pr_id pr) = Some thread \<longrightarrow>
            sendPullRequestNotification m pr st = st)"
  using assms
  by (simp add: formatPullRequestUpdateMessage_def allReviewersApproved_def
      pendingReviewers_def sendPullRequestNotification_def)

theorem no_reviewers_no_change_witness:
  "reviewers pr_unassigned = [] \<and>
   formatPullRequestUpdateMessage mentions pr_unassigned = None \<and>
   sendPullRequestNotification mentions pr_unassigned
     (idle [(2, thread1)] [reply1]) = idle [(2, thread1)] [reply1]"
proof -
  have none: "reviewers pr_unassigned = []"
    by (simp add: pr_unassigned_def)
  have thread: "getMessageId (store (idle [(2, thread1)] [reply1])) (pr_id pr_unassigned) = Some ''t-1''"
    by (simp add: getMessageId_def idle_def thread1_def pr_unassigned_def)
  from no_reviewers_no_change [OF none, of mentions] none thread
  show ?thesis by blast
qed

section \<open>The contract of the thread store\<close>

text \<open>
  Claim C7. With a non-zero pull-request id and non-empty thread id and repository, and
  while the file operations succeed and nothing else writes the store, two calls of
  \<^verbatim>\<open>saveMessageId\<close> with the same arguments both return without raising, and the
  lookup of the id after the second call equals the lookup after the first, the thread id.
\<close>

theorem put_twice:
  assumes "prId' \<noteq> 0" and "t \<noteq> []" and "r \<noteq> []" and "quiet env1" and "quiet env2"
  shows "\<exists>s1 s2.
           saveMessageId env1 now1 prId' (Some t) r s0 = (Inr (), s1) \<and>
           saveMessageId env2 now2 prId' (Some t) r s1 = (Inr (), s2) \<and>
           getMessageId s1 prId' = Some t \<and>
           getMessageId s2 prId' = getMessageId s1 prId'"
  using assms
  by (simp add: saveMessageId_def saveStore_def quiet_def getMessageId_def map_of_update_same)

theorem put_twice_witness:
  "saveMessageId quiet_io ''n1'' 1 (Some ''t-1'') ''app''
     (snd (saveMessageId quiet_io ''n0'' 1 (Some ''t-1'') ''app'' [])) =
   (Inr (), [(1, \<lparr>messageId = ''t-1'', repository = ''app'', updatedAt = ''n1''\<rparr>)]) \<and>
   getMessageId (snd (saveMessageId quiet_io ''n0'' 1 (Some ''t-1'') ''app'' [])) 1 = Some ''t-1''"
  using put_twice [of 1 "''t-1''" "''app''" quiet_io quiet_io "''n0''" "[]" "''n1''"]
  by (simp add: quiet_def quiet_io_def saveMessageId_def saveStore_def getMessageId_def)

text \<open>
  Claim C8. \<^verbatim>\<open>removePR\<close> returns without raising and leaves the whole store as it is
  when the store has no record of the id, and when the record's repository is not the
  argument. Otherwise it deletes the record and saves the store; it raises the error of
  the file operations if they fail, raises the verification error if the store holds a
  record of the id when the save returns, and returns normally if not.
\<close>

theorem remove_contract:
  "(map_of s prId' = None \<longrightarrow> removePR env prId' r s = (Inr (), s)) \<and>
   (\<forall>e. map_of s prId' = Some e \<and> repository e \<noteq> r \<longrightarrow> removePR env prId' r s = (Inr (), s)) \<and>
   (\<forall>e. map_of s prId' = Some e \<and> repository e = r \<longrightarrow>
      snd (removePR env prId' r s) = concurrent env (AList.delete prId' s) \<and>
      fst (removePR env prId' r s) =
        (if fsFails env then Inl FileSystemError
         else if map_of (concurrent env (AList.delete prId' s)) prId' \<noteq> None
         then Inl PRRemovalVerificationFailed
         else Inr ()) \<and>
      (quiet env \<longrightarrow>
         removePR env prId' r s = (Inr (), AList.delete prId' s) \<and>
         map_of (AList.delete prId' s) prId' = None))"
  by (auto simp: removePR_def saveStore_def quiet_def delete_conv')

theorem remove_contract_witness:
  "removePR quiet_io 5 ''app'' [(1, thread1)] = (Inr (), [(1, thread1)]) \<and>
   removePR quiet_io 1 ''web'' [(1, thread1)] = (Inr (), [(1, thread1)]) \<and>
   removePR quiet_io 1 ''app'' [(1, thread1)] = (Inr (), []) \<and>
   removePR \<lparr>fsFails = False, concurrent = (\<lambda>store. (1, thread1) # store)\<rparr> 1 ''app''
       [(1, thread1)] =
     (Inl PRRemovalVerificationFailed, [(1, thread1)])"
  using remove_contract [of "[(1, thread1)]" 5 quiet_io "''app''"]
    remove_contract [of "[(1, thread1)]" 1 quiet_io "''web''"]
    remove_contract [of "[(1, thread1)]" 1 quiet_io "''app''"]
  by (simp add: removePR_def saveStore_def quiet_io_def thread1_def)

section \<open>The delivery queue\<close>

text \<open>
  Claim C3, as the code has it. The head item starts with retry counter 0 and the
  gateway answers every attempt on it with status 429. After three consecutive drains
  the item is still the head, with counter 3 (\<^verbatim>\<open>MAX_RETRIES\<close>); the fourth drain drops
  it, leaves the store as it was, and the drain trigger after that posts the next item.
\<close>

theorem rate_limit_retries:
  assumes "\<not> isProcessing st" and "messageQueue st = msg # rest" and "retries msg = 0"
    and "length attempts = 3" and "\<forall>a\<in>set attempts. rateLimited (fst a) msg"
    and "rateLimited gw4 msg"
  shows "drains chatId attempts st = st\<lparr>messageQueue := msg\<lparr>retries := 3\<rparr> # rest\<rparr> \<and>
         drains chatId (attempts @ [(gw4, env4, now4)]) st = st\<lparr>messageQueue := rest\<rparr> \<and>
         (\<forall>next' more. rest = next' # more \<longrightarrow>
            (\<exists>requests.
               snd (processMessageQueue chatId gw5 env5 now5
                      (drains chatId (attempts @ [(gw4, env4, now4)]) st)) =
                 postOf chatId next' # requests))"
proof -
  let ?s3 = "st\<lparr>messageQueue := msg\<lparr>retries := 3\<rparr> # rest\<rparr>"
  have three: "drains chatId attempts st = ?s3"
    using drains_rateLimited [OF assms(1,2,5), of chatId] assms(3,4)
    by (simp add: MAX_RETRIES_def)
  have "fst (processMessageQueue chatId gw4 env4 now4 ?s3) = ?s3\<lparr>messageQueue := rest\<rparr>"
    using drain_rateLimited [of ?s3 "msg\<lparr>retries := 3\<rparr>" rest gw4 chatId env4 now4] assms(1,6)
    by (simp add: MAX_RETRIES_def)
  then have four: "drains chatId (attempts @ [(gw4, env4, now4)]) st = st\<lparr>messageQueue := rest\<rparr>"
    using three by (simp add: drains_append) (simp add: drains_def)
  have "\<exists>requests.
          snd (processMessageQueue chatId gw5 env5 now5 (st\<lparr>messageQueue := rest\<rparr>)) =
            postOf chatId next' # requests"
    if "rest = next' # more" for next' more
    using deliver_requests [of chatId gw5 env5 now5 next' "store st"] assms(1) that
    by (auto simp: processMessageQueue_def startDrain_def finishDrain_def split: prod.splits)
  with three four show ?thesis by simp
qed

theorem rate_limit_retries_witness:
  "drains ''chat'' three_attempts (idle [] [reply1, reply2]) =
     idle [] [reply1\<lparr>retries := 3\<rparr>, reply2] \<and>
   drains ''chat'' (three_attempts @ [(gateway_429, quiet_io, ''2024-05-06T10:00:20.000Z'')])
       (idle [] [reply1, reply2]) =
     idle [] [reply2] \<and>
   (\<exists>requests.
      snd (processMessageQueue ''chat'' gateway_ok quiet_io ''2024-05-06T10:00:25.000Z''
            (drains ''chat''
               (three_attempts @ [(gateway_429, quiet_io, ''2024-05-06T10:00:20.000Z'')])
               (idle [] [reply1, reply2]))) =
        PostToThread ''t-2'' ''second'' # requests)"
proof -
  have idle': "\<not> isProcessing (idle [] [reply1, reply2])"
    and queue: "messageQueue (idle [] [reply1, reply2]) = reply1 # [reply2]"
    by (simp_all add: idle_def)
  have fresh: "retries reply1 = 0"
    by (simp add: reply1_def)
  have len: "length three_attempts = 3"
    by (simp add: three_attempts_def)
  have limited: "rateLimited gateway_429 reply1"
    by (simp add: rateLimited_def gateway_429_def)
  then have all: "\<forall>a\<in>set three_attempts. rateLimited (fst a) reply1"
    by (simp add: three_attempts_def)
  have post: "postOf ''chat'' reply2 = PostToThread ''t-2'' ''second''"
    by (simp add: postOf_def reply2_def)
  have upd: "(idle [] [reply1, reply2])\<lparr>messageQueue := q\<rparr> = idle [] q" for q
    by (simp add: idle_def)
  note main = rate_limit_retries [OF idle' queue fresh len all limited, of "''chat''" quiet_io
      "''2024-05-06T10:00:20.000Z''" gateway_ok quiet_io "''2024-05-06T10:00:25.000Z''",
      unfolded upd]
  from main have "\<exists>requests.
      snd (processMessageQueue ''chat'' gateway_ok quiet_io ''2024-05-06T10:00:25.000Z''
            (drains ''chat''
               (three_attempts @ [(gateway_429, quiet_io, ''2024-05-06T10:00:20.000Z'')])
               (idle [] [reply1, reply2]))) =
        postOf ''chat'' reply2 # requests"
    by blast
  with main show ?thesis
    by (simp only: post)
qed

text \<open>
  Claim C3 as the specification states it, the item dropped after the third attempt,
  fails: after three drains answered with 429 the first reply is still the head of the
  queue, before the second one.
\<close>

theorem rate_limit_third_attempt_counterexample:
  "retries reply1 = 0 \<and> rateLimited gateway_429 reply1 \<and>
   messageQueue (drains ''chat'' three_attempts (idle [] [reply1, reply2])) =
     [reply1\<lparr>retries := 3\<rparr>, reply2] \<and>
   messageQueue (drains ''chat'' three_attempts (idle [] [reply1, reply2])) \<noteq> [reply2]"
  by (simp add: drains_def three_attempts_def processMessageQueue_def startDrain_def
      finishDrain_def deliver_def deliverReply_def idle_def reply1_def reply2_def
      gateway_429_def rateLimited_def MAX_RETRIES_def)

text \<open>
  Claim C9. In every state that the triggers, the ends of attempts, the calls of
  \<^verbatim>\<open>queueMessage\<close> and the removals of the poll cycle can reach: a trigger that
  fires while an attempt is in flight or while the queue is empty changes nothing and
  sends nothing; the message of the attempt in flight, and the message a trigger picks,
  is the head of the queue; whatever event happens, the gateway receives nothing, or the
  post of the head item, alone or followed by the request for its thread, and so never
  the post of an item behind the head; when an attempt ends in a retry, the retried item
  stays the head in front of the unchanged rest, the next trigger picks it again,
  whatever has been enqueued in between, and the requests of both attempts are posts of
  that item and requests for a thread; and \<^verbatim>\<open>queueMessage\<close> appends at the tail.
\<close>

theorem head_of_line:
  assumes "reachable chatId (st, inFlight)"
  shows "(isProcessing st \<or> messageQueue st = [] \<longrightarrow>
            fire chatId Trigger (st, inFlight) = ((st, inFlight), []) \<and>
            processMessageQueue chatId gw env now st = (st, [])) \<and>
         (\<forall>msg. inFlight = Some msg \<longrightarrow> messageQueue st \<noteq> [] \<and> hd (messageQueue st) = msg) \<and>
         (\<forall>msg. snd (fst (fire chatId Trigger (st, inFlight))) = Some msg \<longrightarrow>
            messageQueue st \<noteq> [] \<and> hd (messageQueue st) = msg) \<and>
         (\<forall>ev. snd (fire chatId ev (st, inFlight)) = [] \<or>
               snd (fire chatId ev (st, inFlight)) = [postOf chatId (hd (messageQueue st))] \<or>
               (\<exists>i. snd (fire chatId ev (st, inFlight)) =
                      [postOf chatId (hd (messageQueue st)), CreateThread i])) \<and>
         (\<forall>msg evs gw' env' now'.
              inFlight = Some msg \<and> rateLimited gw msg \<and> retries msg < MAX_RETRIES \<and>
              (\<forall>ev\<in>set evs. isEnqueue ev) \<longrightarrow>
            messageQueue (fst (fst (fire chatId (Complete gw env now) (st, inFlight)))) =
              msg\<lparr>retries := retries msg + 1\<rparr> # tl (messageQueue st) \<and>
            snd (fst (run chatId (Complete gw env now # evs @ [Trigger]) (st, inFlight))) =
              Some (msg\<lparr>retries := retries msg + 1\<rparr>) \<and>
            (\<exists>more more'.
               snd (run chatId (Complete gw env now # evs @ [Trigger, Complete gw' env' now'])
                      (st, inFlight)) =
                 (postOf chatId msg # more) @ (postOf chatId msg # more') \<and>
               set (more @ more') \<subseteq> range CreateThread)) \<and>
         (\<forall>message' parent prId' repository'.
            messageQueue
              (fst (fst (fire chatId (Enqueue message' parent prId' repository')
                           (st, inFlight)))) =
              messageQueue st @
                [\<lparr>message = message', parentMessageId = parent, prId = prId',
                  queued_repository = repository', retries = 0\<rparr>])"
proof -
  note inv = reachable_head [OF assms, simplified]
  have noop: "fire chatId Trigger (st, inFlight) = ((st, inFlight), []) \<and>
      processMessageQueue chatId gw env now st = (st, [])"
    if "isProcessing st \<or> messageQueue st = []"
    using that by (auto simp: startDrain_def processMessageQueue_def)
  have head: "messageQueue st \<noteq> [] \<and> hd (messageQueue st) = msg"
    if "inFlight = Some msg" for msg
    using inv that by simp
  have picked: "messageQueue st \<noteq> [] \<and> hd (messageQueue st) = msg"
    if "snd (fst (fire chatId Trigger (st, inFlight))) = Some msg" for msg
    using that inv by (auto simp: startDrain_def split: if_splits option.splits)
  have sent: "snd (fire chatId ev (st, inFlight)) = [] \<or>
      snd (fire chatId ev (st, inFlight)) = [postOf chatId (hd (messageQueue st))] \<or>
      (\<exists>i. snd (fire chatId ev (st, inFlight)) =
             [postOf chatId (hd (messageQueue st)), CreateThread i])" for ev
  proof (cases ev)
    case (Complete gw0 env0 now0)
    show ?thesis
    proof (cases inFlight)
      case None
      with Complete show ?thesis by simp
    next
      case (Some msg)
      with head have "hd (messageQueue st) = msg" by simp
      with Some Complete deliver_requests [of chatId gw0 env0 now0 msg "store st"]
      show ?thesis
        by (auto simp: finishDrain_def split: prod.splits)
    qed
  qed (simp_all split: option.splits prod.splits)
  have retry: "messageQueue (fst (fst (fire chatId (Complete gw env now) (st, inFlight)))) =
              msg\<lparr>retries := retries msg + 1\<rparr> # tl (messageQueue st) \<and>
            snd (fst (run chatId (Complete gw env now # evs @ [Trigger]) (st, inFlight))) =
              Some (msg\<lparr>retries := retries msg + 1\<rparr>) \<and>
            (\<exists>more more'.
               snd (run chatId (Complete gw env now # evs @ [Trigger, Complete gw' env' now'])
                      (st, inFlight)) =
                 (postOf chatId msg # more) @ (postOf chatId msg # more') \<and>
               set (more @ more') \<subseteq> range CreateThread)"
    if h: "inFlight = Some msg" "rateLimited gw msg" "retries msg < MAX_RETRIES"
      "\<forall>ev\<in>set evs. isEnqueue ev" for msg evs gw' env' now'
  proof -
    from head [OF h(1)] obtain rest where q: "messageQueue st = msg # rest"
      by (cases "messageQueue st") auto
    from deliver_rateLimited [OF h(2), of chatId env now "store st"] obtain more where
      d: "deliver chatId gw env now msg (store st) =
         (Inl (HttpError (Some 429)), postOf chatId msg # more, store st)" by blast
    have more: "set more \<subseteq> range CreateThread"
      using deliver_requests [of chatId gw env now msg "store st"] d by auto
    let ?msg = "msg\<lparr>retries := retries msg + 1\<rparr>"
    let ?st = "st\<lparr>messageQueue := ?msg # rest, isProcessing := False\<rparr>"
    have c: "fire chatId (Complete gw env now) (st, inFlight) =
        ((?st, None), postOf chatId msg # more)"
      using h(1,3) q d by (simp add: finishDrain_def)
    from run_enqueues [OF h(4), of chatId ?st None] obtain queued where
      e: "run chatId evs (?st, None) =
         ((?st\<lparr>messageQueue := messageQueue ?st @ queued\<rparr>, None), [])"
      by blast
    let ?st' = "?st\<lparr>messageQueue := messageQueue ?st @ queued\<rparr>"
    have t: "fire chatId Trigger (?st', None) = ((?st'\<lparr>isProcessing := True\<rparr>, Some ?msg), [])"
      by (simp add: startDrain_def)
    obtain outcome requests store' where
      d': "deliver chatId gw' env' now' ?msg (store st) = (outcome, requests, store')"
      by (cases "deliver chatId gw' env' now' ?msg (store st)")
    with deliver_requests [of chatId gw' env' now' ?msg "store st"] obtain more' where
      more': "requests = postOf chatId msg # more'" "set more' \<subseteq> range CreateThread"
      by auto
    have c': "snd (fire chatId (Complete gw' env' now') (?st'\<lparr>isProcessing := True\<rparr>, Some ?msg)) =
        postOf chatId msg # more'"
      using d' more'(1) by (simp add: finishDrain_def)
    have picked': "snd (fst (run chatId (Complete gw env now # evs @ [Trigger]) (st, inFlight))) =
        Some ?msg"
      using c e t by (simp add: run_append)
    have "snd (run chatId (Complete gw env now # evs @ [Trigger, Complete gw' env' now'])
        (st, inFlight)) = (postOf chatId msg # more) @ (postOf chatId msg # more')"
      using c e t c' by (simp add: run_append split: prod.splits)
    with more more'(2) picked' c q show ?thesis
      by auto
  qed
  have enq: "messageQueue
        (fst (fst (fire chatId (Enqueue message' parent prId' repository') (st, inFlight)))) =
      messageQueue st @
        [\<lparr>message = message', parentMessageId = parent, prId = prId',
          queued_repository = repository', retries = 0\<rparr>]"
    for message' parent prId' repository'
    by (simp add: queueMessage_def)
  show ?thesis
    using noop head picked sent retry enq by blast
qed

theorem head_of_line_witness:
  "fire ''chat'' Trigger busy_system = (busy_system, []) \<and>
   processMessageQueue ''chat'' gateway_ok quiet_io ''2024-05-06T10:00:05.000Z''
     (fst busy_system) = (fst busy_system, []) \<and>
   hd (messageQueue (fst busy_system)) = reply1 \<and>
   messageQueue (fst (fst (fire ''chat''
      (Complete gateway_429 quiet_io ''2024-05-06T10:00:05.000Z'') busy_system))) =
     reply1\<lparr>retries := 1\<rparr> # [reply2] \<and>
   snd (fst (run ''chat''
         (Complete gateway_429 quiet_io ''2024-05-06T10:00:05.000Z'' #
          [Enqueue ''third'' None None None] @ [Trigger]) busy_system)) =
     Some (reply1\<lparr>retries := 1\<rparr>) \<and>
   snd (run ''chat''
         (Complete gateway_429 quiet_io ''2024-05-06T10:00:05.000Z'' #
          [Enqueue ''third'' None None None] @
          [Trigger, Complete gateway_ok quiet_io ''2024-05-06T10:00:10.000Z''])
         busy_system) =
     [PostToThread ''t-1'' ''first'', PostToThread ''t-1'' ''first'']"
proof -
  let ?start = "(\<lparr>store = [], messageQueue = [], isProcessing = False\<rparr>, None) :: system"
  let ?run = "fst (fire ''chat'' Trigger
        (fst (fire ''chat'' (Enqueue ''second'' (Some ''t-2'') (Some 2) (Some ''app''))
           (fst (fire ''chat'' (Enqueue ''first'' (Some ''t-1'') (Some 1) (Some ''app''))
              ?start)))))"
  have run: "?run = (fst busy_system, snd busy_system)"
    by (simp add: busy_system_def queueMessage_def startDrain_def reply1_def reply2_def)
  have "reachable ''chat'' ?run"
    by (intro reachable.step reachable.start)
  then have reach: "reachable ''chat'' (fst busy_system, snd busy_system)"
    by (simp only: run)
  have busy: "isProcessing (fst busy_system)" "snd busy_system = Some reply1"
    "tl (messageQueue (fst busy_system)) = [reply2]"
    by (simp_all add: busy_system_def)
  have limited: "rateLimited gateway_429 reply1"
    by (simp add: rateLimited_def gateway_429_def)
  have fresh: "retries reply1 < MAX_RETRIES" "retries reply1 + 1 = 1"
    by (simp_all add: reply1_def MAX_RETRIES_def)
  have enqueues: "\<forall>ev\<in>set [Enqueue ''third'' None None None]. isEnqueue ev"
    by (simp add: isEnqueue_def)
  have post: "postOf ''chat'' reply1 = PostToThread ''t-1'' ''first''"
    by (simp add: postOf_def reply1_def)
  note limited_run =
    head_of_line [OF reach, of gateway_429 quiet_io "''2024-05-06T10:00:05.000Z''"]
  note accepted_run =
    head_of_line [OF reach, of gateway_ok quiet_io "''2024-05-06T10:00:05.000Z''"]
  have noop: "fire ''chat'' Trigger busy_system = (busy_system, [])"
    using limited_run busy(1) by simp
  have silent: "processMessageQueue ''chat'' gateway_ok quiet_io ''2024-05-06T10:00:05.000Z''
      (fst busy_system) = (fst busy_system, [])"
    using accepted_run busy(1) by simp
  have head: "hd (messageQueue (fst busy_system)) = reply1"
    using limited_run busy(2) by blast
  have "messageQueue (fst (fst (fire ''chat'' (Complete gateway_429 quiet_io
          ''2024-05-06T10:00:05.000Z'') (fst busy_system, snd busy_system)))) =
        reply1\<lparr>retries := retries reply1 + 1\<rparr> # tl (messageQueue (fst busy_system)) \<and>
      snd (fst (run ''chat''
         (Complete gateway_429 quiet_io ''2024-05-06T10:00:05.000Z'' #
          [Enqueue ''third'' None None None] @ [Trigger])
         (fst busy_system, snd busy_system))) =
        Some (reply1\<lparr>retries := retries reply1 + 1\<rparr>)"
    using limited_run busy(2) limited fresh(1) enqueues by blast
  then have retry: "messageQueue (fst (fst (fire ''chat'' (Complete gateway_429 quiet_io
          ''2024-05-06T10:00:05.000Z'') busy_system))) = reply1\<lparr>retries := 1\<rparr> # [reply2] \<and>
      snd (fst (run ''chat''
         (Complete gateway_429 quiet_io ''2024-05-06T10:00:05.000Z'' #
          [Enqueue ''third'' None None None] @ [Trigger]) busy_system)) =
        Some (reply1\<lparr>retries := 1\<rparr>)"
    by (simp only: busy(3) fresh(2) prod.collapse)
  have requests: "snd (run ''chat''
         (Complete gateway_429 quiet_io ''2024-05-06T10:00:05.000Z'' #
          [Enqueue ''third'' None None None] @
          [Trigger, Complete gateway_ok quiet_io ''2024-05-06T10:00:10.000Z''])
         busy_system) =
     [PostToThread ''t-1'' ''first'', PostToThread ''t-1'' ''first'']"
    by (simp add: busy_system_def finishDrain_def deliver_def deliverReply_def reply1_def
        reply2_def gateway_429_def gateway_ok_def queueMessage_def startDrain_def
        MAX_RETRIES_def)
  from noop silent head retry requests show ?thesis
    by (intro conjI) (simp_all only:)
qed




section \<open>The poll cycle\<close>

text \<open>
  Claim C2, evaluated on the code. The start-up pass announces pull request 1 of
  repository \<open>app\<close> in workspace \<open>team\<close>, and the worker stores its thread under the
  full name \<open>team/app\<close> that the snapshot carries. The pull request is merged and
  leaves the open list. The poll looks for stored entries whose repository is the
  configured name \<open>app\<close>, finds none, asks for no status and removes nothing: the entry
  stays. Apart from that, an entry stored under the configured name stays as well when
  another repository polled earlier in the cycle has an open pull request of the same
  number: number 7 is stored under \<open>api\<close>, is absent from the open list of \<open>api\<close>
  and is reported merged there, and number 7 of \<open>web\<close> is open.
\<close>

theorem closed_pull_request_not_removed:
  "messageQueue (processAllRepositories mentions reader_team team (idle [] [])) =
     [announcement pr1_team] \<and>
   store (fst (processMessageQueue ''chat'' gateway_ok quiet_io ''2024-05-06T10:00:05.000Z''
                (idle [] [announcement pr1_team]))) = [(1, thread_team)] \<and>
   1 \<notin> pr_id ` set (getOpenPullRequests reader_merged ''team'' ''app'') \<and>
   answersNotOpen reader_merged ''team'' ''app'' 1 \<and>
   getMessageId
     (store (checkPullRequests True mentions reader_merged (\<lambda>w r j. quiet_io) team
               (idle [(1, thread_team)] []))) 1 = Some ''t-9'' \<and>
   map_of (store (idle [(7, thread7)] [])) 7 = Some thread7 \<and>
   repository thread7 = ''api'' \<and>
   (''team'', ''api'') \<in> set (polled two_repositories) \<and>
   7 \<notin> pr_id ` set (getOpenPullRequests reader_shared_number ''team'' ''api'') \<and>
   answersNotOpen reader_shared_number ''team'' ''api'' 7 \<and>
   getMessageId
     (store (checkPullRequests True mentions reader_shared_number (\<lambda>w r j. quiet_io)
               two_repositories (idle [(7, thread7)] []))) 7 = Some ''t-7''"
proof -
  have announced: "messageQueue (processAllRepositories mentions reader_team team (idle [] [])) =
      [announcement pr1_team]"
    by (simp add: processAllRepositories_def team_def getOpenPullRequests_def reader_team_def
        sendPullRequestNotification_def getMessageId_def queueMessage_def announcement_def
        idle_def)
  have stored: "store (fst (processMessageQueue ''chat'' gateway_ok quiet_io
      ''2024-05-06T10:00:05.000Z'' (idle [] [announcement pr1_team]))) = [(1, thread_team)]"
    by (simp add: processMessageQueue_def startDrain_def finishDrain_def deliver_def
        deliverRoot_def announcement_def gateway_ok_def idle_def saveMessageId_def
        saveStore_def quiet_io_def getMessageId_def thread_team_def pr1_team_def pr1_def)
  have gone: "1 \<notin> pr_id ` set (getOpenPullRequests reader_merged ''team'' ''app'')"
    "answersNotOpen reader_merged ''team'' ''app'' 1"
    by (simp_all add: getOpenPullRequests_def reader_merged_def answersNotOpen_def)
  have kept: "getMessageId
      (store (checkPullRequests True mentions reader_merged (\<lambda>w r j. quiet_io) team
                (idle [(1, thread_team)] []))) 1 = Some ''t-9''"
    by (simp add: checkPullRequests_def team_def checkRepository_def getOpenPullRequests_def
        reader_merged_def getAllStoredPRs_def getAllPRs_def idle_def thread_team_def
        getMessageId_def)
  have shared: "map_of (store (idle [(7, thread7)] [])) 7 = Some thread7 \<and>
   repository thread7 = ''api'' \<and>
   (''team'', ''api'') \<in> set (polled two_repositories) \<and>
   7 \<notin> pr_id ` set (getOpenPullRequests reader_shared_number ''team'' ''api'') \<and>
   answersNotOpen reader_shared_number ''team'' ''api'' 7 \<and>
   getMessageId
     (store (checkPullRequests True mentions reader_shared_number (\<lambda>w r j. quiet_io)
               two_repositories (idle [(7, thread7)] []))) 7 = Some ''t-7''"
  proof -
  have pending: "hasPendingReviewers pr7"
    by (simp add: hasPendingReviewers_def pendingReviewer_def participantInfo_def pr7_def
        pr1_def userA_def userB_def)
  have reminder: "formatPullRequestUpdateMessage mentions pr7 =
      Some (reminderMessage pr7 (pendingReviewers mentions pr7))"
    by (simp add: formatPullRequestUpdateMessage_def allReviewersApproved_def
        pendingReviewers_def pendingReviewer_def participantInfo_def pr7_def pr1_def
        userA_def userB_def)
  have number: "pr_id pr7 = 7"
    by (simp add: pr7_def)
  have "store (checkPullRequests True mentions reader_shared_number (\<lambda>w r j. quiet_io)
               two_repositories (idle [(7, thread7)] [])) = [(7, thread7)]"
    by (simp add: number checkPullRequests_def two_repositories_def checkRepository_def
        getOpenPullRequests_def reader_shared_number_def getAllStoredPRs_def getAllPRs_def
        idle_def thread7_def sweepStep_def openStep_def pending
        sendPullRequestNotification_def getMessageId_def reminder reminderMessage_nonempty
        queueMessage_def)
  then show ?thesis
    by (simp add: idle_def thread7_def polled_def two_repositories_def getOpenPullRequests_def
        reader_shared_number_def answersNotOpen_def getMessageId_def)
qed
  from announced stored gone kept shared show ?thesis
    by blast
qed

text \<open>
  Claim C1, evaluated on the code. Pull request 1 has a stored thread, reviewers A and B,
  state Open and both approvals. The periodic poll calls
  \<^verbatim>\<open>sendPullRequestNotification\<close> only for a pull request with a pending reviewer,
  so it queues nothing for this one; the start-up pass
  \<^verbatim>\<open>processAllRepositories\<close>, which has no such test, queues the one all-approved
  reply to the stored thread.
\<close>

theorem poll_skips_all_approved:
  "getMessageId (store (idle [(1, thread1)] [])) (pr_id pr1_approved) = Some ''t-1'' \<and>
   formatPullRequestUpdateMessage mentions pr1_approved =
     Some (allApprovedMessage mentions pr1_approved) \<and>
   hasPendingReviewers pr1_approved = False \<and>
   messageQueue (checkPullRequests True mentions reader_approved (\<lambda>w r j. quiet_io) team
                   (idle [(1, thread1)] [])) = [] \<and>
   messageQueue (processAllRepositories mentions reader_approved team
                   (idle [(1, thread1)] [])) =
     [\<lparr>message = allApprovedMessage mentions pr1_approved, parentMessageId = Some ''t-1'',
       prId = Some 1, queued_repository = Some ''app'', retries = 0\<rparr>]"
proof -
  have stored: "getMessageId (store (idle [(1, thread1)] [])) (pr_id pr1_approved) = Some ''t-1''"
    by (simp add: getMessageId_def idle_def thread1_def pr1_approved_def pr1_def)
  have approved: "formatPullRequestUpdateMessage mentions pr1_approved =
      Some (allApprovedMessage mentions pr1_approved)"
    by (simp add: formatPullRequestUpdateMessage_def allReviewersApproved_def
        participantInfo_def pr1_approved_def pr1_def userA_def userB_def)
  have settled: "hasPendingReviewers pr1_approved = False"
    by (simp add: hasPendingReviewers_def pendingReviewer_def participantInfo_def
        pr1_approved_def pr1_def userA_def userB_def)
  have opened: "pr_id pr1_approved = 1"
    by (simp add: pr1_approved_def pr1_def)
  have poll: "messageQueue (checkPullRequests True mentions reader_approved (\<lambda>w r j. quiet_io)
      team (idle [(1, thread1)] [])) = []"
    by (simp add: checkPullRequests_def team_def checkRepository_def getOpenPullRequests_def
        reader_approved_def openStep_def settled getAllStoredPRs_def getAllPRs_def idle_def
        thread1_def sweepStep_def opened)
  have "source_repository_full_name pr1_approved = ''app''" "pr_id pr1_approved = 1"
    by (simp_all add: pr1_approved_def pr1_def)
  then have startup: "messageQueue (processAllRepositories mentions reader_approved team
      (idle [(1, thread1)] [])) =
     [\<lparr>message = allApprovedMessage mentions pr1_approved, parentMessageId = Some ''t-1'',
       prId = Some 1, queued_repository = Some ''app'', retries = 0\<rparr>]"
    using stored approved allApprovedMessage_nonempty [of mentions pr1_approved]
    by (simp add: processAllRepositories_def team_def getOpenPullRequests_def
        reader_approved_def sendPullRequestNotification_def queueMessage_def idle_def)
  from stored approved settled poll startup show ?thesis
    by (intro conjI)
qed


end
